theory Spec2Isabelle
  imports Complex_Main "HOL-Library.Sublist"
begin

section \<open>Python values\<close>

text \<open>
  A Python \<open>str\<close> is a sequence of Unicode code points, so it is modelled as a list of
  natural numbers; \<open>pystr\<close> turns an ASCII literal into that form. \<open>bytes\<close> are lists of
  byte values. \<open>None\<close> is the \<open>None\<close> of an option type.
\<close>

type_synonym py_str = "nat list"

type_synonym bytes = "nat list"

definition pystr :: "string \<Rightarrow> py_str" where
  "pystr s = map of_char s"

text \<open>
  Exceptions carry their message (\<open>str(e)\<close>). \<open>PyException\<close> stands for an instance of
  \<open>Exception\<close>, which an \<open>except Exception\<close> clause catches; \<open>PyBaseException\<close> stands
  for an exception that derives from \<open>BaseException\<close> only (\<open>KeyboardInterrupt\<close>,
  \<open>SystemExit\<close>), which such a clause lets through.
\<close>

datatype py_exc = PyException py_str | PyBaseException py_str

text \<open>\<open>xs[0]\<close>, iteration over an optional list, \<open>sep.join\<close>, \<open>x in xs\<close>, \<open>d[k]\<close>,
  \<open>d.values()\<close> and \<open>max(xs, key=f)\<close>, with the exceptions Python raises.\<close>

definition py_index0 :: "'a list \<Rightarrow> py_exc + 'a" where
  "py_index0 xs =
     (case xs of [] \<Rightarrow> Inl (PyException (pystr ''list index out of range'')) | x # _ \<Rightarrow> Inr x)"

definition py_iter :: "'a list option \<Rightarrow> py_exc + 'a list" where
  "py_iter v =
     (case v of
        None \<Rightarrow> Inl (PyException (pystr '''NoneType' object is not iterable''))
      | Some xs \<Rightarrow> Inr xs)"

fun py_join :: "py_str \<Rightarrow> py_str list \<Rightarrow> py_str" where
  "py_join sep [] = []"
| "py_join sep [x] = x"
| "py_join sep (x # y # ys) = x @ sep @ py_join sep (y # ys)"

definition py_in :: "py_str option \<Rightarrow> py_str list \<Rightarrow> bool" where
  "py_in v xs = (case v of None \<Rightarrow> False | Some x \<Rightarrow> x \<in> set xs)"

definition dict_get :: "(py_str \<times> 'v) list \<Rightarrow> py_str \<Rightarrow> py_exc + 'v" where
  "dict_get d k = (case map_of d k of None \<Rightarrow> Inl (PyException k) | Some v \<Rightarrow> Inr v)"

definition dict_values :: "(py_str \<times> 'v) list \<Rightarrow> 'v list" where
  "dict_values d = map snd d"

text \<open>
  A Python \<open>float\<close> that is a score: a number or NaN. Every comparison with NaN is
  false.
\<close>

datatype py_float = Number real | NaN

fun py_gt :: "py_float \<Rightarrow> py_float \<Rightarrow> bool" where
  "py_gt (Number a) (Number b) = (a > b)"
| "py_gt _ _ = False"

text \<open>
  CPython's \<open>max\<close> keeps the first item and replaces it only by an item whose key is
  strictly greater (\<open>>\<close>); on an empty iterable it raises \<open>ValueError\<close>.
\<close>

fun max_from :: "('a \<Rightarrow> py_float) \<Rightarrow> 'a \<Rightarrow> 'a list \<Rightarrow> 'a" where
  "max_from key best [] = best"
| "max_from key best (x # xs) = max_from key (if py_gt (key x) (key best) then x else best) xs"

definition py_max :: "('a \<Rightarrow> py_float) \<Rightarrow> 'a list \<Rightarrow> py_exc + 'a" where
  "py_max key xs =
     (case xs of
        [] \<Rightarrow> Inl (PyException (pystr ''max() arg is an empty sequence''))
      | x # rest \<Rightarrow> Inr (max_from key x rest))"

section \<open>Regular expressions: the fragment the two patterns use\<close>

text \<open>
  \<open>\s\<close> in a \<open>str\<close> pattern matches the Unicode whitespace code points.
\<close>

definition isspace :: "nat \<Rightarrow> bool" where
  "isspace c \<longleftrightarrow>
     (9 \<le> c \<and> c \<le> 13) \<or> (28 \<le> c \<and> c \<le> 32) \<or> c = 133 \<or> c = 160 \<or> c = 5760 \<or>
     (8192 \<le> c \<and> c \<le> 8202) \<or> c = 8232 \<or> c = 8233 \<or> c = 8239 \<or> c = 8287 \<or> c = 12288"

datatype rx_atom = Lit nat | Space

datatype rx_item = One rx_atom | Star rx_atom | Dollar

fun atom_ok :: "rx_atom \<Rightarrow> nat \<Rightarrow> bool" where
  "atom_ok (Lit a) c = (c = a)"
| "atom_ok Space c = isspace c"

text \<open>
  \<open>rx_match p s\<close> matches the pattern \<open>p\<close> at the start of \<open>s\<close> the way a backtracking
  matcher does and returns what follows the match: a greedy star first tries one more
  repetition and falls back to none. \<open>$\<close> (without \<open>re.MULTILINE\<close>) holds at the end of
  the string and just before a newline that ends the string.
\<close>

fun rx_match :: "rx_item list \<Rightarrow> py_str \<Rightarrow> py_str option" where
  "rx_match [] s = Some s"
| "rx_match (One a # p) [] = None"
| "rx_match (One a # p) (c # cs) = (if atom_ok a c then rx_match p cs else None)"
| "rx_match (Star a # p) [] = rx_match p []"
| "rx_match (Star a # p) (c # cs) =
     (if atom_ok a c
      then (case rx_match (Star a # p) cs of Some r \<Rightarrow> Some r | None \<Rightarrow> rx_match p (c # cs))
      else rx_match p (c # cs))"
| "rx_match (Dollar # p) s = (if s = [] \<or> s = [10] then rx_match p s else None)"

text \<open>
  \<open>re.sub(p, repl, s)\<close>: scan from the left, replace every match and go on after it; where
  nothing matches, copy one character. The branch for an empty match is written for
  totality; neither pattern of this program matches the empty string.
\<close>

function re_sub :: "rx_item list \<Rightarrow> py_str \<Rightarrow> py_str \<Rightarrow> py_str" where
  "re_sub p repl s =
     (case rx_match p s of
        Some rest \<Rightarrow>
          if length rest < length s then repl @ re_sub p repl rest
          else repl @ (case s of [] \<Rightarrow> [] | c # cs \<Rightarrow> c # re_sub p repl cs)
      | None \<Rightarrow> (case s of [] \<Rightarrow> [] | c # cs \<Rightarrow> c # re_sub p repl cs))"
  by pat_completeness auto
termination
  by (relation "measure (\<lambda>(p, repl, s). length s)") auto

definition lits :: "string \<Rightarrow> rx_item list" where
  "lits s = map (\<lambda>c. One (Lit (of_char c))) s"

text \<open>
  \<^verbatim>\<open>r"User:\s*Extract mathematical expressions in LaTeX format\s*Assistant: 0>0>500>500>"\<close>
\<close>

definition prompt_pattern :: "rx_item list" where
  "prompt_pattern =
     lits ''User:'' @ [Star Space] @
     lits ''Extract mathematical expressions in LaTeX format'' @ [Star Space] @
     lits ''Assistant: 0>0>500>500>''"

text \<open>
  \<^verbatim>\<open>r"\\, \.$"\<close>: a backslash (92), a comma (44), a space (32), a dot (46), then \<open>$\<close>.
\<close>

definition trailing_pattern :: "rx_item list" where
  "trailing_pattern = [One (Lit 92), One (Lit 44), One (Lit 32), One (Lit 46), Dollar]"

section \<open>Effects: the log and the calls to the external collaborators\<close>

datatype level = INFO | ERROR

datatype 'img event =
    Log level py_str
  | Call_b64decode py_str
  | Call_image_open bytes
  | Call_classifier 'img "py_str list"
  | Call_ocr bytes
  | Call_formula 'img
  | Call_gemini bytes

text \<open>
  A computation yields the events it emitted, in order, and either the exception that
  ended it or its value.
\<close>

type_synonym ('img, 'a) run = "'img event list \<times> (py_exc + 'a)"

definition ret :: "'a \<Rightarrow> ('img, 'a) run" where
  "ret x = ([], Inr x)"

definition lift :: "py_exc + 'a \<Rightarrow> ('img, 'a) run" where
  "lift r = ([], r)"

definition call :: "'img event \<Rightarrow> py_exc + 'a \<Rightarrow> ('img, 'a) run" where
  "call ev r = ([ev], r)"

definition logger :: "level \<Rightarrow> py_str \<Rightarrow> ('img, unit) run" where
  "logger lv msg = ([Log lv msg], Inr ())"

definition seq :: "('img, 'a) run \<Rightarrow> ('a \<Rightarrow> ('img, 'b) run) \<Rightarrow> ('img, 'b) run" where
  "seq m f =
     (case m of
        (t, Inl e) \<Rightarrow> (t, Inl e)
      | (t, Inr x) \<Rightarrow> (case f x of (t', r) \<Rightarrow> (t @ t', r)))"

text \<open>\<open>try: body except Exception as e: handler\<close>; the handler receives \<open>str(e)\<close>.\<close>

definition try_except :: "('img, 'a) run \<Rightarrow> (py_str \<Rightarrow> ('img, 'a) run) \<Rightarrow> ('img, 'a) run" where
  "try_except body handler =
     (case body of
        (t, Inl (PyException e)) \<Rightarrow> (case handler e of (t', r) \<Rightarrow> (t @ t', r))
      | (t, r) \<Rightarrow> (t, r))"

section \<open>Constants (utils/constants.py)\<close>

definition IMAGE_CATEGORY :: "(py_str \<times> py_str list) list" where
  "IMAGE_CATEGORY =
     [(pystr ''Graph'',
         [pystr ''a picture including curve graph'',
          pystr ''a picture including linear graph'',
          pystr ''a picture including bar graph'']),
      (pystr ''Formula'',
         [pystr ''equilibrium expression for a chemical'',
          pystr ''formula including fraction or symbols'']),
      (pystr ''Text'',
         [pystr ''a formula including Korean'',
          pystr ''a sentence including Hangul'',
          pystr ''a photo including Hangul'',
          pystr ''a sentence including English''])]"

section \<open>The collaborators\<close>

text \<open>
  What the program calls and does not implement: \<open>base64.b64decode\<close>, PIL's
  \<open>Image.open(...).convert("RGB")\<close>, the zero-shot classification pipeline, PaddleOCR's
  \<open>ocr\<close>, the formula model (processor, \<open>generate\<close>, \<open>batch_decode\<close>) and the Gemini
  client's \<open>generate_content(...).text\<close>. Each either raises or returns. The type \<open>'img\<close>
  is the decoded image (the variable the source calls image is written img). An entry
  of the classifier's output holds a label and its score, a float. An OCR line is a box
  with a text and its confidence; the OCR
  result holds, per page, the lines or \<open>None\<close>.
\<close>

record clf_output =
  label :: py_str
  score :: py_float

type_synonym ocr_line = "real list list \<times> (py_str \<times> real)"

record 'img externals =
  b64decode :: "py_str \<Rightarrow> py_exc + bytes"
  image_open_rgb :: "bytes \<Rightarrow> py_exc + 'img"
  image_classifier :: "'img \<Rightarrow> py_str list \<Rightarrow> py_exc + clf_output list"
  ocr :: "bytes \<Rightarrow> py_exc + ocr_line list option list"
  formula_generate :: "'img \<Rightarrow> py_exc + py_str list"
  generate_content :: "bytes \<Rightarrow> py_exc + py_str"

section \<open>ImageOCR (parsers/image\_ocr.py)\<close>

text \<open>
  The methods keep their names, without the leading underscore that Isabelle does not
  allow in a name.
\<close>

definition classificate_image :: "'img externals \<Rightarrow> 'img \<Rightarrow> ('img, py_str option) run" where
  "classificate_image env img =
     try_except
       (let candidate_labels = concat (dict_values IMAGE_CATEGORY) in
        seq (call (Call_classifier img candidate_labels)
               (image_classifier env img candidate_labels)) (\<lambda>outputs.
        seq (lift (py_max score outputs)) (\<lambda>best.
        let best_output = label best in
        seq (logger INFO (pystr ''classificate image: '' @ best_output)) (\<lambda>_.
        ret (Some best_output)))))
       (\<lambda>e. seq (logger ERROR (pystr ''Failed classificate image: '' @ e)) (\<lambda>_. ret None))"

definition convert_text_to_latex :: "py_str \<Rightarrow> py_str" where
  "convert_text_to_latex text =
     (let text = re_sub prompt_pattern [] text;
          text = re_sub trailing_pattern [] text
      in pystr ''$'' @ text @ pystr ''$'')"

definition extract_formula_from_image :: "'img externals \<Rightarrow> 'img \<Rightarrow> ('img, py_str) run" where
  "extract_formula_from_image env img =
     seq (call (Call_formula img) (formula_generate env img)) (\<lambda>decoded.
     seq (lift (py_index0 decoded)) (\<lambda>generated_text.
     let latex_result = convert_text_to_latex generated_text in
     ret latex_result))"

definition extract_text :: "'img externals \<Rightarrow> bytes \<Rightarrow> ('img, py_str) run" where
  "extract_text env binary_image =
     seq (call (Call_ocr binary_image) (ocr env binary_image)) (\<lambda>ocr_result.
     seq (lift (py_index0 ocr_result)) (\<lambda>page.
     seq (lift (py_iter page)) (\<lambda>lines.
     let texts = py_join (pystr '' '') (map (\<lambda>(_, (text, _)). text) lines) in
     ret texts)))"

definition get_caption_with_gemini :: "'img externals \<Rightarrow> bytes \<Rightarrow> ('img, py_str) run" where
  "get_caption_with_gemini env binary_image =
     call (Call_gemini binary_image) (generate_content env binary_image)"

text \<open>
  The first \<open>try\<close> decodes; its handler logs and returns \<open>None\<close>. The second \<open>try\<close>
  classifies and dispatches; its handler returns the encoded input. A returned string
  \<open>s\<close> is \<open>Some s\<close>.
\<close>

definition convert_img_to_txt :: "'img externals \<Rightarrow> py_str \<Rightarrow> ('img, py_str option) run" where
  "convert_img_to_txt env encode_image =
     seq (try_except
            (seq (call (Call_b64decode encode_image) (b64decode env encode_image)) (\<lambda>binary_image.
             seq (call (Call_image_open binary_image) (image_open_rgb env binary_image)) (\<lambda>img.
             seq (logger INFO (pystr ''Success loading image'')) (\<lambda>_.
             ret (Some (binary_image, img))))))
            (\<lambda>e. seq (logger ERROR (pystr ''Failed loading image: '' @ e)) (\<lambda>_. ret None)))
       (\<lambda>loaded.
          case loaded of
            None \<Rightarrow> ret None
          | Some (binary_image, img) \<Rightarrow>
              try_except
                (seq (classificate_image env img) (\<lambda>image_type.
                 seq (lift (dict_get IMAGE_CATEGORY (pystr ''Text''))) (\<lambda>text_labels.
                 if py_in image_type text_labels
                 then seq (extract_text env binary_image) (\<lambda>r. ret (Some r))
                 else
                 seq (lift (dict_get IMAGE_CATEGORY (pystr ''Formula''))) (\<lambda>formula_labels.
                 if py_in image_type formula_labels
                 then seq (extract_formula_from_image env img) (\<lambda>r. ret (Some r))
                 else seq (get_caption_with_gemini env binary_image) (\<lambda>r. ret (Some r))))))
                (\<lambda>e. ret (Some encode_image)))"

section \<open>Auxiliary definitions for the statements\<close>

text \<open>
  The label list of a category of \<open>IMAGE_CATEGORY\<close>, the events of a successful decode,
  and the handler that the \<open>if\<close>/\<open>elif\<close>/\<open>else\<close> chain of \<open>convert_img_to_txt\<close> runs for
  a classification result (lemma \<open>convert_decoded\<close> relates it to the function itself).
\<close>

definition labels_of :: "py_str \<Rightarrow> py_str list" where
  "labels_of k = (case map_of IMAGE_CATEGORY k of None \<Rightarrow> [] | Some ls \<Rightarrow> ls)"

definition decoded_events :: "py_str \<Rightarrow> bytes \<Rightarrow> 'img event list" where
  "decoded_events s b =
     [Call_b64decode s, Call_image_open b, Log INFO (pystr ''Success loading image'')]"

definition dispatch :: "'img externals \<Rightarrow> bytes \<Rightarrow> 'img \<Rightarrow> py_str option \<Rightarrow> ('img, py_str) run" where
  "dispatch env binary_image img image_type =
     (if py_in image_type (labels_of (pystr ''Text'')) then extract_text env binary_image
      else if py_in image_type (labels_of (pystr ''Formula''))
      then extract_formula_from_image env img
      else get_caption_with_gemini env binary_image)"

text \<open>
  Concrete collaborators for the examples: one input that decodes (the PNG signature),
  one that \<open>b64decode\<close> rejects, all others decoding to bytes that are no image; the
  answers of the classifier, the OCR engine, the formula model and the captioner are
  parameters.
\<close>

definition png_b64 :: py_str where
  "png_b64 = pystr ''iVBORw0KGgo=''"

definition png_bytes :: bytes where
  "png_bytes = [137, 80, 78, 71, 13, 10, 26, 10]"

definition fixture ::
  "(py_exc + clf_output list) \<Rightarrow> (py_exc + ocr_line list option list) \<Rightarrow>
   (py_exc + py_str list) \<Rightarrow> (py_exc + py_str) \<Rightarrow> nat externals" where
  "fixture clf ocr_r formula_r caption_r =
     \<lparr>b64decode = (\<lambda>s. if s = png_b64 then Inr png_bytes
                        else if s = pystr ''abc'' then Inl (PyException (pystr ''Incorrect padding''))
                        else Inr []),
      image_open_rgb = (\<lambda>b. if b = png_bytes then Inr 7
                        else Inl (PyException (pystr ''cannot identify image file''))),
      image_classifier = (\<lambda>img ls. clf),
      ocr = (\<lambda>b. ocr_r),
      formula_generate = (\<lambda>img. formula_r),
      generate_content = (\<lambda>b. caption_r)\<rparr>"

text \<open>
  The number a score stands for; it is used only for scores that are not NaN.
\<close>

fun num_of :: "py_float \<Rightarrow> real" where
  "num_of (Number r) = r"
| "num_of NaN = 0"

text \<open>
  The calls in a trace, by kind, and the categories whose label list holds a label.
\<close>

fun is_classifier_call :: "'img event \<Rightarrow> bool" where
  "is_classifier_call (Call_classifier _ _) = True"
| "is_classifier_call _ = False"

fun is_handler_call :: "'img event \<Rightarrow> bool" where
  "is_handler_call (Call_ocr _) = True"
| "is_handler_call (Call_formula _) = True"
| "is_handler_call (Call_gemini _) = True"
| "is_handler_call _ = False"

definition owners :: "py_str \<Rightarrow> py_str list" where
  "owners l = map fst (filter (\<lambda>(k, ls). l \<in> set ls) IMAGE_CATEGORY)"

text \<open>The handler call of a category: the captioner is the default.\<close>

definition category_handler_call :: "py_str \<Rightarrow> bytes \<Rightarrow> 'img \<Rightarrow> 'img event" where
  "category_handler_call k b img =
     (if k = pystr ''Text'' then Call_ocr b
      else if k = pystr ''Formula'' then Call_formula img
      else Call_gemini b)"

subsection \<open>The formula post-processing without regular expressions\<close>

text \<open>
  What a match of the first pattern is (\<open>echo_rest\<close> returns what follows an echo at the
  start of the string), the removal of all echoes, and the removal of the trailing
  artifact \<open>\, .\<close>.
\<close>

definition strip_prefix :: "py_str \<Rightarrow> py_str \<Rightarrow> py_str option" where
  "strip_prefix w s = (if prefix w s then Some (drop (length w) s) else None)"

definition echo_rest :: "py_str \<Rightarrow> py_str option" where
  "echo_rest s =
     (case strip_prefix (pystr ''User:'') s of
        None \<Rightarrow> None
      | Some s1 \<Rightarrow>
          (case strip_prefix (pystr ''Extract mathematical expressions in LaTeX format'')
                  (dropWhile isspace s1) of
             None \<Rightarrow> None
           | Some s2 \<Rightarrow>
               strip_prefix (pystr ''Assistant: 0>0>500>500>'') (dropWhile isspace s2)))"

lemma echo_rest_shorter: "echo_rest s = Some r \<Longrightarrow> length r < length s"
proof -
  have dw: "length (dropWhile isspace xs) \<le> length xs" for xs :: py_str
    by (rule length_dropWhile_le)
  have sp: "strip_prefix w xs = Some ys \<Longrightarrow> length ys + length w = length xs" for w xs ys
    by (auto simp add: strip_prefix_def prefix_def split: if_splits)
  assume "echo_rest s = Some r"
  then obtain s1 s2 where
    a: "strip_prefix (pystr ''User:'') s = Some s1" and
    b: "strip_prefix (pystr ''Extract mathematical expressions in LaTeX format'')
          (dropWhile isspace s1) = Some s2" and
    c: "strip_prefix (pystr ''Assistant: 0>0>500>500>'') (dropWhile isspace s2) = Some r"
    by (auto simp add: echo_rest_def split: option.splits)
  have "length s1 < length s" using sp[OF a] by (simp add: pystr_def)
  moreover have "length s2 \<le> length s1" using sp[OF b] dw[of s1] by simp
  moreover have "length r \<le> length s2" using sp[OF c] dw[of s2] by simp
  ultimately show ?thesis by simp
qed

function remove_echoes :: "py_str \<Rightarrow> py_str" where
  "remove_echoes s =
     (case echo_rest s of
        Some rest \<Rightarrow> remove_echoes rest
      | None \<Rightarrow> (case s of [] \<Rightarrow> [] | c # cs \<Rightarrow> c # remove_echoes cs))"
  by pat_completeness auto
termination
  by (relation "measure length") (auto simp add: echo_rest_shorter)

definition artifact :: py_str where
  "artifact = [92, 44, 32, 46]"

definition strip_artifact :: "py_str \<Rightarrow> py_str" where
  "strip_artifact s =
     (if suffix artifact s then take (length s - 4) s
      else if suffix (artifact @ [10]) s then take (length s - 5) s @ [10]
      else s)"

text \<open>
  The three steps as the specification words them: remove the exact prompt echo, remove
  \<open>\, .\<close> when the string ends with it, wrap in dollar signs.
\<close>

definition echo_text :: py_str where
  "echo_text =
     pystr ''User: Extract mathematical expressions in LaTeX format Assistant: 0>0>500>500>''"

function spec_remove_all :: "py_str \<Rightarrow> py_str \<Rightarrow> py_str" where
  "spec_remove_all w s =
     (if w \<noteq> [] \<and> prefix w s then spec_remove_all w (drop (length w) s)
      else (case s of [] \<Rightarrow> [] | c # cs \<Rightarrow> c # spec_remove_all w cs))"
  by pat_completeness auto
termination
  by (relation "measure (\<lambda>(w, s). length s)") (auto simp add: prefix_def)

definition spec_strip_trailing :: "py_str \<Rightarrow> py_str" where
  "spec_strip_trailing s = (if suffix artifact s then take (length s - length artifact) s else s)"

definition spec_convert_text_to_latex :: "py_str \<Rightarrow> py_str" where
  "spec_convert_text_to_latex text =
     pystr ''$'' @ spec_strip_trailing (spec_remove_all echo_text text) @ pystr ''$''"

section \<open>The category table\<close>

lemmas run_defs = ret_def lift_def call_def logger_def seq_def try_except_def

lemma labels_of_Graph:
  "labels_of (pystr ''Graph'') =
     [pystr ''a picture including curve graph'',
      pystr ''a picture including linear graph'',
      pystr ''a picture including bar graph'']"
  by (simp add: labels_of_def IMAGE_CATEGORY_def pystr_def)

lemma labels_of_Formula:
  "labels_of (pystr ''Formula'') =
     [pystr ''equilibrium expression for a chemical'',
      pystr ''formula including fraction or symbols'']"
  by (simp add: labels_of_def IMAGE_CATEGORY_def pystr_def)

lemma labels_of_Text:
  "labels_of (pystr ''Text'') =
     [pystr ''a formula including Korean'',
      pystr ''a sentence including Hangul'',
      pystr ''a photo including Hangul'',
      pystr ''a sentence including English'']"
  by (simp add: labels_of_def IMAGE_CATEGORY_def pystr_def)

lemma dict_get_Text: "dict_get IMAGE_CATEGORY (pystr ''Text'') = Inr (labels_of (pystr ''Text''))"
  by (simp add: dict_get_def labels_of_def IMAGE_CATEGORY_def pystr_def)

lemma dict_get_Formula:
  "dict_get IMAGE_CATEGORY (pystr ''Formula'') = Inr (labels_of (pystr ''Formula''))"
  by (simp add: dict_get_def labels_of_def IMAGE_CATEGORY_def pystr_def)

lemma candidate_labels_eq:
  "concat (dict_values IMAGE_CATEGORY) =
     labels_of (pystr ''Graph'') @ labels_of (pystr ''Formula'') @ labels_of (pystr ''Text'')"
  by (simp add: dict_values_def labels_of_def IMAGE_CATEGORY_def pystr_def)

lemma distinct_candidates:
  "distinct (labels_of (pystr ''Graph'') @ labels_of (pystr ''Formula'') @ labels_of (pystr ''Text''))"
  unfolding labels_of_Graph labels_of_Formula labels_of_Text by (simp add: pystr_def)

lemma formula_label_not_text:
  "l \<in> set (labels_of (pystr ''Formula'')) \<Longrightarrow> l \<notin> set (labels_of (pystr ''Text''))"
  using distinct_candidates by auto

lemma graph_label_not_text:
  "l \<in> set (labels_of (pystr ''Graph'')) \<Longrightarrow> l \<notin> set (labels_of (pystr ''Text''))"
  using distinct_candidates by auto

lemma graph_label_not_formula:
  "l \<in> set (labels_of (pystr ''Graph'')) \<Longrightarrow> l \<notin> set (labels_of (pystr ''Formula''))"
  using distinct_candidates by auto

section \<open>Classification and dispatch\<close>

lemma classificate_image_best:
  assumes "image_classifier env img (concat (dict_values IMAGE_CATEGORY)) = Inr outputs"
    and "py_max score outputs = Inr best"
  shows "classificate_image env img =
     ([Call_classifier img (concat (dict_values IMAGE_CATEGORY)),
       Log INFO (pystr ''classificate image: '' @ label best)], Inr (Some (label best)))"
  using assms by (simp add: classificate_image_def run_defs Let_def)

lemma classificate_image_raises:
  assumes "image_classifier env img (concat (dict_values IMAGE_CATEGORY)) = Inl (PyException m)"
  shows "classificate_image env img =
     ([Call_classifier img (concat (dict_values IMAGE_CATEGORY)),
       Log ERROR (pystr ''Failed classificate image: '' @ m)], Inr None)"
  using assms by (simp add: classificate_image_def run_defs Let_def)


text \<open>After a successful decode the result is that of the second \<open>try\<close>.\<close>

lemma convert_decoded:
  assumes "b64decode env s = Inr b" and "image_open_rgb env b = Inr img"
  shows "convert_img_to_txt env s =
     (case classificate_image env img of
        (t, Inl (PyException m)) \<Rightarrow> (decoded_events s b @ t, Inr (Some s))
      | (t, Inl (PyBaseException m)) \<Rightarrow> (decoded_events s b @ t, Inl (PyBaseException m))
      | (t, Inr image_type) \<Rightarrow>
          (case dispatch env b img image_type of
             (t', Inl (PyException m)) \<Rightarrow> (decoded_events s b @ t @ t', Inr (Some s))
           | (t', Inl (PyBaseException m)) \<Rightarrow> (decoded_events s b @ t @ t', Inl (PyBaseException m))
           | (t', Inr r) \<Rightarrow> (decoded_events s b @ t @ t', Inr (Some r))))"
  using assms
  by (simp add: convert_img_to_txt_def decoded_events_def dict_get_Text dict_get_Formula run_defs
      dispatch_def split: prod.splits sum.splits py_exc.splits)

lemma convert_after_dispatch:
  assumes "b64decode env s = Inr b" and "image_open_rgb env b = Inr img"
    and "classificate_image env img = (t, Inr image_type)"
    and "dispatch env b img image_type = (t', r)"
  shows "convert_img_to_txt env s =
     (decoded_events s b @ t @ t',
      case r of
        Inl (PyException m) \<Rightarrow> Inr (Some s)
      | Inl (PyBaseException m) \<Rightarrow> Inl (PyBaseException m)
      | Inr x \<Rightarrow> Inr (Some x))"
  by (simp add: convert_decoded[OF assms(1,2)] assms(3,4) split: sum.splits py_exc.splits)

lemma fixture_decodes:
  "b64decode (fixture c r f g) png_b64 = Inr png_bytes"
  "image_open_rgb (fixture c r f g) png_bytes = Inr 7"
  "image_classifier (fixture c r f g) i ls = c"
  "ocr (fixture c r f g) b = r"
  "formula_generate (fixture c r f g) i = f"
  "generate_content (fixture c r f g) b = g"
  by (simp_all add: fixture_def)

section \<open>The Text branch\<close>

lemma extract_text_result:
  "extract_text env b =
     ([Call_ocr b],
      case ocr env b of
        Inl e \<Rightarrow> Inl e
      | Inr [] \<Rightarrow> Inl (PyException (pystr ''list index out of range''))
      | Inr (None # pages) \<Rightarrow> Inl (PyException (pystr '''NoneType' object is not iterable''))
      | Inr (Some lines # pages) \<Rightarrow>
          Inr (py_join (pystr '' '') (map (\<lambda>(_, (text, _)). text) lines)))"
  by (simp add: extract_text_def run_defs py_index0_def py_iter_def Let_def
      split: sum.splits list.splits option.splits)

text \<open>
  C2, as stated, fails: for an image with a Text label on which the OCR engine detects
  nothing, the first page of its result is \<open>None\<close>, iterating over it raises, and the
  top-level handler returns the encoded input, not the (empty) concatenation of the
  detected fragments.
\<close>

theorem text_label_none_page_counterexample:
  "snd (convert_img_to_txt
     (fixture (Inr [\<lparr>label = pystr ''a sentence including English'', score = Number 0.9\<rparr>])
        (Inr [None]) (Inr []) (Inr [])) png_b64) = Inr (Some png_b64) \<and>
   png_b64 \<noteq> py_join (pystr '' '') []"
proof -
  let ?best = "\<lparr>label = pystr ''a sentence including English'', score = Number 0.9\<rparr>"
  let ?env = "fixture (Inr [?best]) (Inr [None]) (Inr []) (Inr []) :: nat externals"
  have a: "b64decode ?env png_b64 = Inr png_bytes" "image_open_rgb ?env png_bytes = Inr 7"
    "image_classifier ?env 7 (concat (dict_values IMAGE_CATEGORY)) = Inr [?best]"
    by (simp_all only: fixture_decodes)
  have m: "py_max score [?best] = Inr ?best"
    by (simp add: py_max_def)
  have d: "dispatch ?env png_bytes 7 (Some (label ?best)) =
      ([Call_ocr png_bytes], Inl (PyException (pystr '''NoneType' object is not iterable'')))"
    by (simp add: dispatch_def py_in_def labels_of_Text extract_text_result fixture_decodes)
  have r: "snd (convert_img_to_txt ?env png_b64) = Inr (Some png_b64)"
    using convert_after_dispatch[OF a(1) a(2) classificate_image_best[OF a(3) m] d] by simp
  have n: "png_b64 \<noteq> py_join (pystr '' '') []"
    by (simp add: png_b64_def pystr_def)
  show ?thesis using r n by simp
qed

text \<open>
  C2, amended. For an input that decodes to an RGB image and whose best classification
  label is one of the Text labels, \<open>convert_img_to_txt\<close> calls the OCR engine, and neither
  the formula model nor the captioner. When the first page of the OCR result is a list
  of lines, it returns the texts of all of them, in the order returned, joined by single
  spaces, whatever their confidence. When the first page is \<open>None\<close>, when the result has
  no page, or when the OCR call raises an instance of \<open>Exception\<close>, it returns the
  encoded input unchanged.
\<close>

theorem text_label_returns_ocr_join_or_input:
  assumes "b64decode env s = Inr b" and "image_open_rgb env b = Inr img"
    and "image_classifier env img (concat (dict_values IMAGE_CATEGORY)) = Inr outputs"
    and "py_max score outputs = Inr best"
    and "label best \<in> set (labels_of (pystr ''Text''))"
  shows "convert_img_to_txt env s =
     (decoded_events s b @
      [Call_classifier img (concat (dict_values IMAGE_CATEGORY)),
       Log INFO (pystr ''classificate image: '' @ label best),
       Call_ocr b],
      case ocr env b of
        Inl (PyException m) \<Rightarrow> Inr (Some s)
      | Inl (PyBaseException m) \<Rightarrow> Inl (PyBaseException m)
      | Inr [] \<Rightarrow> Inr (Some s)
      | Inr (None # pages) \<Rightarrow> Inr (Some s)
      | Inr (Some lines # pages) \<Rightarrow>
          Inr (Some (py_join (pystr '' '') (map (\<lambda>(_, (text, _)). text) lines))))"
proof -
  have d: "dispatch env b img (Some (label best)) = extract_text env b"
    using assms(5) by (simp add: dispatch_def py_in_def)
  obtain r where e: "extract_text env b = ([Call_ocr b], r)"
    and r: "r = (case ocr env b of
        Inl e \<Rightarrow> Inl e
      | Inr [] \<Rightarrow> Inl (PyException (pystr ''list index out of range''))
      | Inr (None # pages) \<Rightarrow> Inl (PyException (pystr '''NoneType' object is not iterable''))
      | Inr (Some lines # pages) \<Rightarrow>
          Inr (py_join (pystr '' '') (map (\<lambda>(_, (text, _)). text) lines)))"
    using extract_text_result[of env b] by simp
  show ?thesis
    using convert_after_dispatch[OF assms(1,2) classificate_image_best[OF assms(3,4)] d[unfolded e]]
    by (simp add: r split: sum.splits py_exc.splits list.splits option.splits)
qed

theorem text_label_returns_ocr_join_or_input_witness:
  "snd (convert_img_to_txt
     (fixture
        (Inr [\<lparr>label = pystr ''a picture including bar graph'', score = Number 0.1\<rparr>,
              \<lparr>label = pystr ''a sentence including English'', score = Number 0.9\<rparr>])
        (Inr [Some [([[0, 0], [9, 0], [9, 4], [0, 4]], (pystr ''Hello'', 0.99)),
                    ([[0, 5], [9, 5], [9, 9], [0, 9]], (pystr ''world'', 0.31))]])
        (Inr [pystr ''x'']) (Inr (pystr ''a bar chart'')))
     png_b64) = Inr (Some (pystr ''Hello world'')) \<and>
   snd (convert_img_to_txt
     (fixture
        (Inr [\<lparr>label = pystr ''a picture including bar graph'', score = Number 0.1\<rparr>,
              \<lparr>label = pystr ''a sentence including English'', score = Number 0.9\<rparr>])
        (Inl (PyException (pystr ''OCR engine failed'')))
        (Inr [pystr ''x'']) (Inr (pystr ''a bar chart'')))
     png_b64) = Inr (Some png_b64)"
proof -
  let ?best = "\<lparr>label = pystr ''a sentence including English'', score = Number 0.9\<rparr>"
  let ?outs = "[\<lparr>label = pystr ''a picture including bar graph'', score = Number 0.1\<rparr>, ?best]"
  let ?e1 = "fixture (Inr ?outs)
        (Inr [Some [([[0, 0], [9, 0], [9, 4], [0, 4]], (pystr ''Hello'', 0.99)),
                    ([[0, 5], [9, 5], [9, 9], [0, 9]], (pystr ''world'', 0.31))]])
        (Inr [pystr ''x'']) (Inr (pystr ''a bar chart'')) :: nat externals"
  let ?e2 = "fixture (Inr ?outs) (Inl (PyException (pystr ''OCR engine failed'')))
        (Inr [pystr ''x'']) (Inr (pystr ''a bar chart'')) :: nat externals"
  have m: "py_max score ?outs = Inr ?best"
    by (simp add: py_max_def)
  have l: "label ?best \<in> set (labels_of (pystr ''Text''))"
    by (simp add: labels_of_Text)
  have a1: "b64decode ?e1 png_b64 = Inr png_bytes" "image_open_rgb ?e1 png_bytes = Inr 7"
    "image_classifier ?e1 7 (concat (dict_values IMAGE_CATEGORY)) = Inr ?outs"
    by (simp_all only: fixture_decodes)
  have a2: "b64decode ?e2 png_b64 = Inr png_bytes" "image_open_rgb ?e2 png_bytes = Inr 7"
    "image_classifier ?e2 7 (concat (dict_values IMAGE_CATEGORY)) = Inr ?outs"
    by (simp_all only: fixture_decodes)
  have r1: "snd (convert_img_to_txt ?e1 png_b64) = Inr (Some (pystr ''Hello world''))"
    using text_label_returns_ocr_join_or_input[OF a1 m l]
    by (simp add: fixture_decodes pystr_def)
  have r2: "snd (convert_img_to_txt ?e2 png_b64) = Inr (Some png_b64)"
    using text_label_returns_ocr_join_or_input[OF a2 m l]
    by (simp add: fixture_decodes)
  show ?thesis using r1 r2 by simp
qed

section \<open>Decode failure\<close>

text \<open>
  C4. When the input does not decode to an RGB image, because \<open>b64decode\<close> raises or
  because it returns bytes that \<open>Image.open\<close> rejects, \<open>convert_img_to_txt\<close> logs the error
  and returns \<open>None\<close>, which is not the empty string; it raises nothing, and no
  collaborator beyond the decoding is called.
\<close>

theorem decode_failure_returns_None:
  assumes "b64decode env s = Inl (PyException m) \<or>
           (\<exists>b. b64decode env s = Inr b \<and> image_open_rgb env b = Inl (PyException m))"
  shows "convert_img_to_txt env s =
           (Call_b64decode s #
              (case b64decode env s of Inl _ \<Rightarrow> [] | Inr b \<Rightarrow> [Call_image_open b]) @
              [Log ERROR (pystr ''Failed loading image: '' @ m)],
            Inr None) \<and>
         snd (convert_img_to_txt env s) \<noteq> Inr (Some [])"
  using assms by (auto simp add: convert_img_to_txt_def run_defs)

theorem decode_failure_returns_None_witness:
  "convert_img_to_txt (fixture (Inr []) (Inr []) (Inr []) (Inr [])) (pystr ''abc'') =
     ([Call_b64decode (pystr ''abc''),
       Log ERROR (pystr ''Failed loading image: Incorrect padding'')], Inr None) \<and>
   convert_img_to_txt (fixture (Inr []) (Inr []) (Inr []) (Inr [])) (pystr ''@@@@'') =
     ([Call_b64decode (pystr ''@@@@''), Call_image_open [],
       Log ERROR (pystr ''Failed loading image: cannot identify image file'')], Inr None)"
proof -
  let ?env = "fixture (Inr []) (Inr []) (Inr []) (Inr []) :: nat externals"
  have a: "b64decode ?env (pystr ''abc'') = Inl (PyException (pystr ''Incorrect padding''))"
    by (simp add: fixture_def png_b64_def pystr_def)
  have b: "b64decode ?env (pystr ''@@@@'') = Inr []"
    by (simp add: fixture_def png_b64_def pystr_def)
  have c: "image_open_rgb ?env [] = Inl (PyException (pystr ''cannot identify image file''))"
    by (simp add: fixture_def png_bytes_def)
  have h1: "b64decode ?env (pystr ''abc'') = Inl (PyException (pystr ''Incorrect padding'')) \<or>
      (\<exists>b. b64decode ?env (pystr ''abc'') = Inr b \<and>
           image_open_rgb ?env b = Inl (PyException (pystr ''Incorrect padding'')))"
    using a by simp
  have h2: "b64decode ?env (pystr ''@@@@'') = Inl (PyException (pystr ''cannot identify image file'')) \<or>
      (\<exists>b. b64decode ?env (pystr ''@@@@'') = Inr b \<and>
           image_open_rgb ?env b = Inl (PyException (pystr ''cannot identify image file'')))"
    using b c by simp
  have r1: "convert_img_to_txt ?env (pystr ''abc'') =
      ([Call_b64decode (pystr ''abc''),
        Log ERROR (pystr ''Failed loading image: '' @ pystr ''Incorrect padding'')], Inr None)"
    using decode_failure_returns_None[OF h1] by (simp add: a)
  have r2: "convert_img_to_txt ?env (pystr ''@@@@'') =
      ([Call_b64decode (pystr ''@@@@''), Call_image_open [],
        Log ERROR (pystr ''Failed loading image: '' @ pystr ''cannot identify image file'')], Inr None)"
    using decode_failure_returns_None[OF h2] by (simp add: b)
  show ?thesis
    unfolding r1 r2 by (simp add: pystr_def)
qed

section \<open>The top-level handler\<close>




section \<open>Classifier failure\<close>

text \<open>
  C5, as stated, fails: when the classifier call raises and the captioner answers, the
  caption is returned, not the encoded input.
\<close>

theorem classifier_failure_counterexample:
  "convert_img_to_txt
     (fixture (Inl (PyException (pystr ''CUDA out of memory''))) (Inr []) (Inr [])
        (Inr (pystr ''a bar chart''))) png_b64 =
     (decoded_events png_b64 png_bytes @
      [Call_classifier 7 (concat (dict_values IMAGE_CATEGORY)),
       Log ERROR (pystr ''Failed classificate image: CUDA out of memory''),
       Call_gemini png_bytes],
      Inr (Some (pystr ''a bar chart''))) \<and>
   Some (pystr ''a bar chart'') \<noteq> Some png_b64"
proof -
  let ?env = "fixture (Inl (PyException (pystr ''CUDA out of memory''))) (Inr []) (Inr [])
        (Inr (pystr ''a bar chart'')) :: nat externals"
  have a: "b64decode ?env png_b64 = Inr png_bytes" "image_open_rgb ?env png_bytes = Inr 7"
    by (simp_all only: fixture_decodes)
  have c: "classificate_image ?env 7 =
      ([Call_classifier 7 (concat (dict_values IMAGE_CATEGORY)),
        Log ERROR (pystr ''Failed classificate image: '' @ pystr ''CUDA out of memory'')],
       Inr None)"
    by (simp add: classificate_image_raises fixture_decodes)
  have d: "dispatch ?env png_bytes 7 None = ([Call_gemini png_bytes], Inr (pystr ''a bar chart''))"
    by (simp add: dispatch_def py_in_def get_caption_with_gemini_def run_defs fixture_decodes)
  have e: "pystr ''Failed classificate image: '' @ pystr ''CUDA out of memory'' =
      pystr ''Failed classificate image: CUDA out of memory''"
    by (simp add: pystr_def)
  have n: "pystr ''a bar chart'' \<noteq> png_b64"
    by (simp add: png_b64_def pystr_def)
  show ?thesis
    using convert_after_dispatch[OF a c d] n
    unfolding e by simp
qed

text \<open>
  C5, amended. When the input decodes and the classifier call raises an instance of
  \<open>Exception\<close>, \<open>_classificate_image\<close> logs it and returns \<open>None\<close>; \<open>None\<close> belongs to
  neither the Text nor the Formula labels, so \<open>convert_img_to_txt\<close> calls the captioner
  and returns its caption. The encoded input is returned only when the captioner in turn
  raises an instance of \<open>Exception\<close>.
\<close>

theorem classifier_failure_goes_to_captioner:
  assumes "b64decode env s = Inr b" and "image_open_rgb env b = Inr img"
    and "image_classifier env img (concat (dict_values IMAGE_CATEGORY)) = Inl (PyException m)"
  shows "convert_img_to_txt env s =
     (decoded_events s b @
      [Call_classifier img (concat (dict_values IMAGE_CATEGORY)),
       Log ERROR (pystr ''Failed classificate image: '' @ m),
       Call_gemini b],
      case generate_content env b of
        Inl (PyException e) \<Rightarrow> Inr (Some s)
      | Inl (PyBaseException e) \<Rightarrow> Inl (PyBaseException e)
      | Inr caption \<Rightarrow> Inr (Some caption))"
proof -
  have d: "dispatch env b img None = ([Call_gemini b], generate_content env b)"
    by (simp add: dispatch_def py_in_def get_caption_with_gemini_def run_defs)
  show ?thesis
    using convert_after_dispatch[OF assms(1,2) classificate_image_raises[OF assms(3)] d]
    by simp
qed

theorem classifier_failure_goes_to_captioner_witness:
  "snd (convert_img_to_txt
     (fixture (Inl (PyException (pystr ''CUDA out of memory''))) (Inr []) (Inr [])
        (Inr (pystr ''two curves''))) png_b64) = Inr (Some (pystr ''two curves'')) \<and>
   snd (convert_img_to_txt
     (fixture (Inl (PyException (pystr ''CUDA out of memory''))) (Inr []) (Inr [])
        (Inl (PyException (pystr ''503 Service Unavailable'')))) png_b64) = Inr (Some png_b64)"
proof -
  let ?e1 = "fixture (Inl (PyException (pystr ''CUDA out of memory''))) (Inr []) (Inr [])
        (Inr (pystr ''two curves'')) :: nat externals"
  let ?e2 = "fixture (Inl (PyException (pystr ''CUDA out of memory''))) (Inr []) (Inr [])
        (Inl (PyException (pystr ''503 Service Unavailable''))) :: nat externals"
  have a1: "b64decode ?e1 png_b64 = Inr png_bytes" "image_open_rgb ?e1 png_bytes = Inr 7"
    "image_classifier ?e1 7 (concat (dict_values IMAGE_CATEGORY)) =
       Inl (PyException (pystr ''CUDA out of memory''))"
    by (simp_all only: fixture_decodes)
  have a2: "b64decode ?e2 png_b64 = Inr png_bytes" "image_open_rgb ?e2 png_bytes = Inr 7"
    "image_classifier ?e2 7 (concat (dict_values IMAGE_CATEGORY)) =
       Inl (PyException (pystr ''CUDA out of memory''))"
    by (simp_all only: fixture_decodes)
  show ?thesis
    using classifier_failure_goes_to_captioner[OF a1] classifier_failure_goes_to_captioner[OF a2]
    by (simp add: fixture_decodes)
qed

section \<open>The Formula branch\<close>

lemma pystr_dollar: "pystr ''$'' = [36]"
  by (simp add: pystr_def)

lemma dollar_prefix: "prefix [36, 36] ([36] @ c @ [36]) \<longleftrightarrow> c = [] \<or> hd c = (36::nat)"
  by (cases c) auto

lemma dollar_suffix: "suffix [36, 36] ([36] @ c @ [36]) \<longleftrightarrow> c = [] \<or> last c = (36::nat)"
  by (cases c rule: rev_cases) (auto simp add: suffix_to_prefix)

lemma extract_formula_first:
  assumes "formula_generate env img = Inr (raw # others)"
  shows "extract_formula_from_image env img = ([Call_formula img], Inr (convert_text_to_latex raw))"
  using assms by (simp add: extract_formula_from_image_def run_defs py_index0_def Let_def)

lemma convert_formula_label:
  assumes "b64decode env s = Inr b" and "image_open_rgb env b = Inr img"
    and "image_classifier env img (concat (dict_values IMAGE_CATEGORY)) = Inr outputs"
    and "py_max score outputs = Inr best"
    and "label best \<in> set (labels_of (pystr ''Formula''))"
    and "formula_generate env img = Inr (raw # others)"
  shows "convert_img_to_txt env s =
     (decoded_events s b @
      [Call_classifier img (concat (dict_values IMAGE_CATEGORY)),
       Log INFO (pystr ''classificate image: '' @ label best),
       Call_formula img],
      Inr (Some (convert_text_to_latex raw)))"
proof -
  have d: "dispatch env b img (Some (label best)) =
      ([Call_formula img], Inr (convert_text_to_latex raw))"
    using assms(5) formula_label_not_text[OF assms(5)]
    by (simp add: dispatch_def py_in_def extract_formula_first[OF assms(6)])
  show ?thesis
    using convert_after_dispatch[OF assms(1,2) classificate_image_best[OF assms(3,4)] d]
    by simp
qed

text \<open>
  C3, as stated, fails: when the cleaned model output is empty the result is \<open>$$\<close>, and
  when it starts and ends with a dollar sign itself the result starts and ends with a
  doubled one.
\<close>

theorem formula_single_dollar_counterexample:
  "snd (convert_img_to_txt
     (fixture (Inr [\<lparr>label = pystr ''formula including fraction or symbols'', score = Number 0.7\<rparr>])
        (Inr []) (Inr [[]]) (Inr [])) png_b64) = Inr (Some (pystr ''$$'')) \<and>
   snd (convert_img_to_txt
     (fixture (Inr [\<lparr>label = pystr ''formula including fraction or symbols'', score = Number 0.7\<rparr>])
        (Inr []) (Inr [pystr ''$x$'']) (Inr [])) png_b64) = Inr (Some (pystr ''$$x$$''))"
proof -
  let ?best = "\<lparr>label = pystr ''formula including fraction or symbols'', score = Number 0.7\<rparr>"
  let ?e1 = "fixture (Inr [?best]) (Inr []) (Inr [[]]) (Inr []) :: nat externals"
  let ?e2 = "fixture (Inr [?best]) (Inr []) (Inr [pystr ''$x$'']) (Inr []) :: nat externals"
  have m: "py_max score [?best] = Inr ?best"
    by (simp add: py_max_def)
  have l: "label ?best \<in> set (labels_of (pystr ''Formula''))"
    by (simp add: labels_of_Formula)
  have e1: "convert_text_to_latex [] = pystr ''$$''"
    by (simp add: convert_text_to_latex_def pystr_def prompt_pattern_def trailing_pattern_def
        lits_def)
  have e2: "convert_text_to_latex (pystr ''$x$'') = pystr ''$$x$$''"
    by (simp add: convert_text_to_latex_def pystr_def prompt_pattern_def trailing_pattern_def
        lits_def)
  have a1: "b64decode ?e1 png_b64 = Inr png_bytes" "image_open_rgb ?e1 png_bytes = Inr 7"
    "image_classifier ?e1 7 (concat (dict_values IMAGE_CATEGORY)) = Inr [?best]"
    "formula_generate ?e1 7 = Inr [[]]"
    by (simp_all only: fixture_decodes)
  have a2: "b64decode ?e2 png_b64 = Inr png_bytes" "image_open_rgb ?e2 png_bytes = Inr 7"
    "image_classifier ?e2 7 (concat (dict_values IMAGE_CATEGORY)) = Inr [?best]"
    "formula_generate ?e2 7 = Inr [pystr ''$x$'']"
    by (simp_all only: fixture_decodes)
  have r1: "snd (convert_img_to_txt ?e1 png_b64) = Inr (Some (pystr ''$$''))"
    using convert_formula_label[OF a1(1) a1(2) a1(3) m l a1(4)] unfolding e1 by simp
  have r2: "snd (convert_img_to_txt ?e2 png_b64) = Inr (Some (pystr ''$$x$$''))"
    using convert_formula_label[OF a2(1) a2(2) a2(3) m l a2(4)] unfolding e2 by simp
  show ?thesis using r1 r2 by simp
qed

text \<open>
  C3, amended. For an input that decodes and whose best classification label is one of
  the Formula labels, when the formula model returns a text, the result is that text
  after the two substitutions with exactly one dollar sign added in front and one
  behind. So the result always starts and ends with a dollar sign; it starts (ends) with
  a doubled one exactly when the cleaned text is empty or itself starts (ends) with a
  dollar sign.
\<close>

theorem formula_label_returns_wrapped:
  assumes "b64decode env s = Inr b" and "image_open_rgb env b = Inr img"
    and "image_classifier env img (concat (dict_values IMAGE_CATEGORY)) = Inr outputs"
    and "py_max score outputs = Inr best"
    and "label best \<in> set (labels_of (pystr ''Formula''))"
    and "formula_generate env img = Inr (raw # others)"
    and "cleaned = re_sub trailing_pattern [] (re_sub prompt_pattern [] raw)"
    and "r = pystr ''$'' @ cleaned @ pystr ''$''"
  shows "convert_img_to_txt env s =
           (decoded_events s b @
            [Call_classifier img (concat (dict_values IMAGE_CATEGORY)),
             Log INFO (pystr ''classificate image: '' @ label best),
             Call_formula img],
            Inr (Some r)) \<and>
         hd r = 36 \<and> last r = 36 \<and> length r = length cleaned + 2 \<and>
         (prefix (pystr ''$$'') r \<longleftrightarrow> cleaned = [] \<or> hd cleaned = 36) \<and>
         (suffix (pystr ''$$'') r \<longleftrightarrow> cleaned = [] \<or> last cleaned = 36)"
proof -
  have c: "convert_text_to_latex raw = r"
    by (simp add: convert_text_to_latex_def Let_def assms(7,8))
  have r: "r = [36] @ cleaned @ [36]"
    by (simp add: assms(8) pystr_dollar)
  have dd: "pystr ''$$'' = [36, 36]"
    by (simp add: pystr_def)
  have "convert_img_to_txt env s =
           (decoded_events s b @
            [Call_classifier img (concat (dict_values IMAGE_CATEGORY)),
             Log INFO (pystr ''classificate image: '' @ label best),
             Call_formula img],
            Inr (Some r))"
    using convert_formula_label[OF assms(1-6)] by (simp only: c)
  moreover have "hd r = 36 \<and> last r = 36 \<and> length r = length cleaned + 2"
    by (simp add: r)
  moreover have "prefix (pystr ''$$'') r \<longleftrightarrow> cleaned = [] \<or> hd cleaned = 36"
    unfolding dd r by (rule dollar_prefix)
  moreover have "suffix (pystr ''$$'') r \<longleftrightarrow> cleaned = [] \<or> last cleaned = 36"
    unfolding dd r by (rule dollar_suffix)
  ultimately show ?thesis by blast
qed

theorem formula_label_returns_wrapped_witness:
  "snd (convert_img_to_txt
     (fixture (Inr [\<lparr>label = pystr ''formula including fraction or symbols'', score = Number 0.7\<rparr>])
        (Inr []) (Inr [pystr ''E=mc^2'' @ [92] @ pystr '', .'']) (Inr [])) png_b64)
   = Inr (Some (pystr ''$E=mc^2$''))"
proof -
  let ?best = "\<lparr>label = pystr ''formula including fraction or symbols'', score = Number 0.7\<rparr>"
  let ?raw = "pystr ''E=mc^2'' @ [92] @ pystr '', .''"
  let ?env = "fixture (Inr [?best]) (Inr []) (Inr [?raw]) (Inr []) :: nat externals"
  have m: "py_max score [?best] = Inr ?best"
    by (simp add: py_max_def)
  have l: "label ?best \<in> set (labels_of (pystr ''Formula''))"
    by (simp add: labels_of_Formula)
  have e: "pystr ''$'' @ re_sub trailing_pattern [] (re_sub prompt_pattern [] ?raw) @ pystr ''$''
      = pystr ''$E=mc^2$''"
    by (simp add: pystr_def prompt_pattern_def trailing_pattern_def lits_def)
  have a: "b64decode ?env png_b64 = Inr png_bytes" "image_open_rgb ?env png_bytes = Inr 7"
    "image_classifier ?env 7 (concat (dict_values IMAGE_CATEGORY)) = Inr [?best]"
    "formula_generate ?env 7 = Inr [?raw]"
    by (simp_all only: fixture_decodes)
  show ?thesis
    using formula_label_returns_wrapped[OF a(1) a(2) a(3) m l a(4) refl refl]
    unfolding e by simp
qed

section \<open>The selection rule of the classifier\<close>

lemma max_from_keeps:
  "\<forall>x\<in>set post. \<not> py_gt (key x) (key best) \<Longrightarrow> max_from key best post = best"
  by (induction post) auto

lemma max_from_skips:
  "\<forall>x\<in>set pre. py_gt (key best) (key x) \<Longrightarrow> py_gt (key best) (key b) \<Longrightarrow>
   max_from key b (pre @ best # post) = max_from key best post"
  by (induction pre arbitrary: b) auto

lemma py_max_first:
  assumes "\<forall>x\<in>set pre. py_gt (key best) (key x)"
    and "\<forall>x\<in>set post. \<not> py_gt (key x) (key best)"
  shows "py_max key (pre @ best # post) = Inr best"
proof (cases pre)
  case Nil
  then show ?thesis using assms(2) by (simp add: py_max_def max_from_keeps)
next
  case (Cons p pre')
  then have "max_from key p (pre' @ best # post) = max_from key best post"
    using assms(1) by (intro max_from_skips) auto
  then show ?thesis using Cons assms(2) by (simp add: py_max_def max_from_keeps)
qed

lemma py_gt_num: "a \<noteq> NaN \<Longrightarrow> b \<noteq> NaN \<Longrightarrow> py_gt a b \<longleftrightarrow> num_of b < num_of a"
  by (cases a; cases b) auto

lemma first_max_split:
  fixes f :: "'a \<Rightarrow> 'k::linorder"
  assumes "xs \<noteq> []"
  shows "\<exists>pre best post. xs = pre @ best # post \<and>
           (\<forall>x\<in>set pre. f x < f best) \<and> (\<forall>x\<in>set post. f x \<le> f best)"
proof -
  let ?P = "\<lambda>x. \<forall>y\<in>set xs. f y \<le> f x"
  have "Max (f ` set xs) \<in> f ` set xs"
    using assms by (intro Max_in) auto
  then obtain m where m: "m \<in> set xs" "f m = Max (f ` set xs)" by auto
  have "?P m" using m(2) by (auto intro: Max_ge)
  with m(1) have "\<exists>x\<in>set xs. ?P x" by blast
  from split_list_first_prop[OF this]
  obtain pre best post where d: "xs = pre @ best # post" "?P best" "\<forall>y\<in>set pre. \<not> ?P y"
    by blast
  have "\<forall>x\<in>set pre. f x < f best"
  proof
    fix x assume x: "x \<in> set pre"
    then have "x \<in> set xs" using d(1) by simp
    then have le: "f x \<le> f best" using d(2) by blast
    have "f x \<noteq> f best"
    proof
      assume "f x = f best"
      then have "?P x" using d(2) by simp
      then show False using d(3) x by blast
    qed
    with le show "f x < f best" by simp
  qed
  moreover have "\<forall>x\<in>set post. f x \<le> f best" using d(1,2) by simp
  ultimately show ?thesis using d(1) by blast
qed

text \<open>
  In a non-empty list without NaN some entry is the first one with the maximal score.
\<close>

lemma first_max_exists:
  assumes "xs \<noteq> []" and "\<forall>x\<in>set xs. key x \<noteq> NaN"
  shows "\<exists>pre best post. xs = pre @ best # post \<and>
           (\<forall>x\<in>set pre. py_gt (key best) (key x)) \<and>
           (\<forall>x\<in>set post. \<not> py_gt (key x) (key best))"
proof -
  from first_max_split[OF assms(1), of "\<lambda>x. num_of (key x)"]
  obtain pre best post where d: "xs = pre @ best # post"
    "\<forall>x\<in>set pre. num_of (key x) < num_of (key best)"
    "\<forall>x\<in>set post. num_of (key x) \<le> num_of (key best)"
    by blast
  have n: "key best \<noteq> NaN" "\<forall>x\<in>set pre. key x \<noteq> NaN" "\<forall>x\<in>set post. key x \<noteq> NaN"
    using assms(2) d(1) by auto
  have "\<forall>x\<in>set pre. py_gt (key best) (key x)"
    using d(2) n by (simp add: py_gt_num)
  moreover have "\<forall>x\<in>set post. \<not> py_gt (key x) (key best)"
    using d(3) n by (auto simp add: py_gt_num)
  ultimately show ?thesis using d(1) by blast
qed

lemma classificate_image_nonempty:
  assumes "image_classifier env img (concat (dict_values IMAGE_CATEGORY)) = Inr outputs"
    and "outputs \<noteq> []" and "\<forall>x\<in>set outputs. score x \<noteq> NaN"
  shows "\<exists>pre best post. outputs = pre @ best # post \<and>
           (\<forall>x\<in>set pre. py_gt (score best) (score x)) \<and>
           (\<forall>x\<in>set post. \<not> py_gt (score x) (score best)) \<and>
           snd (classificate_image env img) = Inr (Some (label best))"
proof -
  from first_max_exists[OF assms(2,3)]
  obtain pre best post where d: "outputs = pre @ best # post"
    "\<forall>x\<in>set pre. py_gt (score best) (score x)"
    "\<forall>x\<in>set post. \<not> py_gt (score x) (score best)"
    by blast
  have "py_max score outputs = Inr best"
    unfolding d(1) using d(2,3) by (rule py_max_first)
  with assms(1) have "snd (classificate_image env img) = Inr (Some (label best))"
    by (simp add: classificate_image_best)
  with d show ?thesis by blast
qed

text \<open>
  The classification pipeline lists its entries by descending score with a stable sort
  of the candidate order. Under such a sort the entry that \<open>max\<close> selects is still the
  first entry, in candidate order, with the maximal score.
\<close>

lemma py_max_after_stable_sort:
  assumes "\<forall>x\<in>set (pre @ best # post). key x \<noteq> NaN"
    and "\<forall>x\<in>set pre. py_gt (key best) (key x)"
    and "\<forall>x\<in>set post. \<not> py_gt (key x) (key best)"
  shows "py_max key (sort_key (\<lambda>x. - num_of (key x)) (pre @ best # post)) = Inr best"
proof -
  let ?k = "\<lambda>x. num_of (key x)"
  let ?f = "\<lambda>x. - ?k x"
  let ?xs = "pre @ best # post"
  let ?ys = "sort_key ?f ?xs"
  have lt: "\<forall>x\<in>set pre. ?k x < ?k best"
    using assms(1,2) by (auto simp add: py_gt_num)
  have le': "\<forall>x\<in>set post. ?k x \<le> ?k best"
  proof
    fix x assume "x \<in> set post"
    then have "\<not> py_gt (key x) (key best)" "key x \<noteq> NaN" "key best \<noteq> NaN"
      using assms(1,3) by auto
    then show "?k x \<le> ?k best" by (simp add: py_gt_num)
  qed
  have le: "\<forall>x\<in>set ?ys. ?k x \<le> ?k best"
    using lt le' by (auto simp add: less_imp_le)
  have "?ys \<noteq> []"
    by (metis Nil_is_append_conv length_0_conv length_sort list.distinct(1))
  then obtain h rest where ys: "?ys = h # rest" by (cases ?ys) auto
  have "sorted (map ?f ?ys)" by (rule sorted_sort_key)
  then have "\<forall>y\<in>set rest. ?f h \<le> ?f y" by (simp add: ys)
  moreover have "best \<in> set ?ys" by simp
  ultimately have "?k best \<le> ?k h" by (auto simp add: ys)
  moreover have "?k h \<le> ?k best" using le by (simp add: ys)
  ultimately have kh: "?f h = ?f best" by simp
  have "filter (\<lambda>y. ?f y = ?f best) ?ys = filter (\<lambda>y. ?f y = ?f best) ?xs"
    by (rule sort_key_stable)
  moreover have "filter (\<lambda>y. ?f y = ?f best) ?xs = best # filter (\<lambda>y. ?f y = ?f best) post"
    using lt by (auto simp add: filter_empty_conv)
  moreover have "filter (\<lambda>y. ?f y = ?f best) ?ys = h # filter (\<lambda>y. ?f y = ?f best) rest"
    using kh by (simp add: ys)
  ultimately have hb: "h = best" by simp
  have nn: "\<forall>x\<in>set rest. key x \<noteq> NaN" "key best \<noteq> NaN"
  proof -
    have "set rest \<subseteq> set ?ys" by (simp add: ys subset_insertI)
    then have "set rest \<subseteq> set ?xs" by simp
    then show "\<forall>x\<in>set rest. key x \<noteq> NaN" using assms(1) by blast
    show "key best \<noteq> NaN" using assms(1) by simp
  qed
  have "\<forall>x\<in>set rest. \<not> py_gt (key x) (key best)"
  proof
    fix x assume x: "x \<in> set rest"
    then have "?k x \<le> ?k best" using le by (simp add: ys)
    then show "\<not> py_gt (key x) (key best)" using nn x by (simp add: py_gt_num)
  qed
  then show ?thesis
    by (simp add: ys hb py_max_def max_from_keeps)
qed

text \<open>
  C6, as stated, fails: the order that breaks a tie is that of the list the classifier
  returns, not that of the candidate labels passed to it. With the two tied entries
  listed in the reverse order, the label selected is the ninth candidate although the
  third candidate has the same, maximal, score.
\<close>

theorem candidate_order_counterexample:
  "snd (classificate_image
     (fixture
        (Inr [\<lparr>label = pystr ''a sentence including English'', score = Number 0.4\<rparr>,
              \<lparr>label = pystr ''a picture including bar graph'', score = Number 0.4\<rparr>])
        (Inr []) (Inr []) (Inr [])) 7)
     = Inr (Some (pystr ''a sentence including English'')) \<and>
   concat (dict_values IMAGE_CATEGORY) ! 2 = pystr ''a picture including bar graph'' \<and>
   concat (dict_values IMAGE_CATEGORY) ! 8 = pystr ''a sentence including English''"
proof -
  let ?t = "\<lparr>label = pystr ''a sentence including English'', score = Number 0.4\<rparr>"
  let ?g = "\<lparr>label = pystr ''a picture including bar graph'', score = Number 0.4\<rparr>"
  let ?env = "fixture (Inr [?t, ?g]) (Inr []) (Inr []) (Inr []) :: nat externals"
  have a: "image_classifier ?env 7 (concat (dict_values IMAGE_CATEGORY)) = Inr [?t, ?g]"
    by (simp only: fixture_decodes)
  have m: "py_max score [?t, ?g] = Inr ?t"
    by (simp add: py_max_def)
  have r: "snd (classificate_image ?env 7) = Inr (Some (pystr ''a sentence including English''))"
    using classificate_image_best[OF a m] by simp
  have c: "concat (dict_values IMAGE_CATEGORY) ! 2 = pystr ''a picture including bar graph''"
    "concat (dict_values IMAGE_CATEGORY) ! 8 = pystr ''a sentence including English''"
    by (simp_all add: candidate_labels_eq labels_of_Graph labels_of_Formula labels_of_Text)
  show ?thesis using r c by simp
qed

text \<open>
  C6, amended. For every list of outputs that the classifier returns: an entry whose
  score is strictly greater than the score of every entry before it, and is exceeded by
  no entry after it, is the one whose label \<open>_classificate_image\<close> selects; so among
  entries that share the maximal score, the first one in the classifier's output list
  wins. That entry is the first one in the candidate-label order whenever the output
  list is a stable sort, by descending score, of entries given in candidate-label order
  with scores that are numbers.
\<close>

theorem classificate_image_picks_first_listed_max:
  assumes "image_classifier env img (concat (dict_values IMAGE_CATEGORY)) = Inr outputs"
  shows "(\<forall>pre best post.
            outputs = pre @ best # post \<and>
            (\<forall>x\<in>set pre. py_gt (score best) (score x)) \<and>
            (\<forall>x\<in>set post. \<not> py_gt (score x) (score best)) \<longrightarrow>
            classificate_image env img =
              ([Call_classifier img (concat (dict_values IMAGE_CATEGORY)),
                Log INFO (pystr ''classificate image: '' @ label best)],
               Inr (Some (label best)))) \<and>
         (\<forall>entries pre best post.
            outputs = sort_key (\<lambda>x. - num_of (score x)) entries \<and>
            map label entries = concat (dict_values IMAGE_CATEGORY) \<and>
            (\<forall>x\<in>set entries. score x \<noteq> NaN) \<and>
            entries = pre @ best # post \<and>
            (\<forall>x\<in>set pre. py_gt (score best) (score x)) \<and>
            (\<forall>x\<in>set post. \<not> py_gt (score x) (score best)) \<longrightarrow>
            snd (classificate_image env img) = Inr (Some (label best)) \<and>
            label best = concat (dict_values IMAGE_CATEGORY) ! length pre)"
proof (intro conjI allI impI)
  fix pre best post
  assume h: "outputs = pre @ best # post \<and>
            (\<forall>x\<in>set pre. py_gt (score best) (score x)) \<and>
            (\<forall>x\<in>set post. \<not> py_gt (score x) (score best))"
  then have "py_max score outputs = Inr best"
    by (simp add: py_max_first)
  with assms show "classificate_image env img =
              ([Call_classifier img (concat (dict_values IMAGE_CATEGORY)),
                Log INFO (pystr ''classificate image: '' @ label best)],
               Inr (Some (label best)))"
    by (rule classificate_image_best)
next
  fix entries pre best post
  assume h: "outputs = sort_key (\<lambda>x. - num_of (score x)) entries \<and>
            map label entries = concat (dict_values IMAGE_CATEGORY) \<and>
            (\<forall>x\<in>set entries. score x \<noteq> NaN) \<and>
            entries = pre @ best # post \<and>
            (\<forall>x\<in>set pre. py_gt (score best) (score x)) \<and>
            (\<forall>x\<in>set post. \<not> py_gt (score x) (score best))"
  then have e: "entries = pre @ best # post" by blast
  have "py_max score (sort_key (\<lambda>x. - num_of (score x)) (pre @ best # post)) = Inr best"
    using h unfolding e by (intro py_max_after_stable_sort) blast+
  then have "py_max score outputs = Inr best" using h e by simp
  with assms have "classificate_image env img =
              ([Call_classifier img (concat (dict_values IMAGE_CATEGORY)),
                Log INFO (pystr ''classificate image: '' @ label best)],
               Inr (Some (label best)))"
    by (rule classificate_image_best)
  then show "snd (classificate_image env img) = Inr (Some (label best))" by simp
  from h have ml: "map label entries = concat (dict_values IMAGE_CATEGORY)" by blast
  have "map label entries ! length pre = label best"
    by (simp add: e nth_append)
  then show "label best = concat (dict_values IMAGE_CATEGORY) ! length pre"
    unfolding ml by simp
qed

theorem classificate_image_picks_first_listed_max_witness:
  "snd (classificate_image
     (fixture
        (Inr [\<lparr>label = pystr ''a picture including bar graph'', score = Number 0.2\<rparr>,
              \<lparr>label = pystr ''formula including fraction or symbols'', score = Number 0.4\<rparr>,
              \<lparr>label = pystr ''a sentence including English'', score = Number 0.4\<rparr>])
        (Inr []) (Inr []) (Inr [])) 7)
     = Inr (Some (pystr ''formula including fraction or symbols'')) \<and>
   snd (classificate_image
     (fixture
        (Inr [\<lparr>label = pystr ''a photo including Hangul'', score = NaN\<rparr>,
              \<lparr>label = pystr ''a sentence including English'', score = Number 0.5\<rparr>])
        (Inr []) (Inr []) (Inr [])) 7)
     = Inr (Some (pystr ''a photo including Hangul'')) \<and>
   snd (classificate_image
     (fixture
        (Inr (sort_key (\<lambda>x. - num_of (score x))
           [\<lparr>label = pystr ''a picture including curve graph'', score = Number 0.05\<rparr>,
            \<lparr>label = pystr ''a picture including linear graph'', score = Number 0.1\<rparr>,
            \<lparr>label = pystr ''a picture including bar graph'', score = Number 0.3\<rparr>,
            \<lparr>label = pystr ''equilibrium expression for a chemical'', score = Number 0.02\<rparr>,
            \<lparr>label = pystr ''formula including fraction or symbols'', score = Number 0.03\<rparr>,
            \<lparr>label = pystr ''a formula including Korean'', score = Number 0.1\<rparr>,
            \<lparr>label = pystr ''a sentence including Hangul'', score = Number 0.05\<rparr>,
            \<lparr>label = pystr ''a photo including Hangul'', score = Number 0.05\<rparr>,
            \<lparr>label = pystr ''a sentence including English'', score = Number 0.3\<rparr>]))
        (Inr []) (Inr []) (Inr [])) 7)
     = Inr (Some (pystr ''a picture including bar graph''))"
proof -
  let ?g = "\<lparr>label = pystr ''a picture including bar graph'', score = Number 0.2\<rparr>"
  let ?f = "\<lparr>label = pystr ''formula including fraction or symbols'', score = Number 0.4\<rparr>"
  let ?t = "\<lparr>label = pystr ''a sentence including English'', score = Number 0.4\<rparr>"
  let ?e1 = "fixture (Inr [?g, ?f, ?t]) (Inr []) (Inr []) (Inr []) :: nat externals"
  have a1: "image_classifier ?e1 7 (concat (dict_values IMAGE_CATEGORY)) = Inr [?g, ?f, ?t]"
    by (simp only: fixture_decodes)
  have h1: "[?g, ?f, ?t] = [?g] @ ?f # [?t] \<and>
      (\<forall>x\<in>set [?g]. py_gt (score ?f) (score x)) \<and>
      (\<forall>x\<in>set [?t]. \<not> py_gt (score x) (score ?f))"
    by simp
  have r1: "snd (classificate_image ?e1 7) =
      Inr (Some (pystr ''formula including fraction or symbols''))"
    using classificate_image_picks_first_listed_max[OF a1, THEN conjunct1, rule_format, OF h1]
    by simp
  let ?n = "\<lparr>label = pystr ''a photo including Hangul'', score = NaN\<rparr>"
  let ?h = "\<lparr>label = pystr ''a sentence including English'', score = Number 0.5\<rparr>"
  let ?e2 = "fixture (Inr [?n, ?h]) (Inr []) (Inr []) (Inr []) :: nat externals"
  have a2: "image_classifier ?e2 7 (concat (dict_values IMAGE_CATEGORY)) = Inr [?n, ?h]"
    by (simp only: fixture_decodes)
  have h2: "[?n, ?h] = [] @ ?n # [?h] \<and>
      (\<forall>x\<in>set []. py_gt (score ?n) (score x)) \<and>
      (\<forall>x\<in>set [?h]. \<not> py_gt (score x) (score ?n))"
    by simp
  have r2: "snd (classificate_image ?e2 7) = Inr (Some (pystr ''a photo including Hangul''))"
    using classificate_image_picks_first_listed_max[OF a2, THEN conjunct1, rule_format, OF h2]
    by simp
  let ?c1 = "\<lparr>label = pystr ''a picture including curve graph'', score = Number 0.05\<rparr>"
  let ?c2 = "\<lparr>label = pystr ''a picture including linear graph'', score = Number 0.1\<rparr>"
  let ?c3 = "\<lparr>label = pystr ''a picture including bar graph'', score = Number 0.3\<rparr>"
  let ?c4 = "\<lparr>label = pystr ''equilibrium expression for a chemical'', score = Number 0.02\<rparr>"
  let ?c5 = "\<lparr>label = pystr ''formula including fraction or symbols'', score = Number 0.03\<rparr>"
  let ?c6 = "\<lparr>label = pystr ''a formula including Korean'', score = Number 0.1\<rparr>"
  let ?c7 = "\<lparr>label = pystr ''a sentence including Hangul'', score = Number 0.05\<rparr>"
  let ?c8 = "\<lparr>label = pystr ''a photo including Hangul'', score = Number 0.05\<rparr>"
  let ?c9 = "\<lparr>label = pystr ''a sentence including English'', score = Number 0.3\<rparr>"
  let ?entries = "[?c1, ?c2, ?c3, ?c4, ?c5, ?c6, ?c7, ?c8, ?c9]"
  let ?outs = "sort_key (\<lambda>x. - num_of (score x)) ?entries"
  let ?e3 = "fixture (Inr ?outs) (Inr []) (Inr []) (Inr []) :: nat externals"
  have a3: "image_classifier ?e3 7 (concat (dict_values IMAGE_CATEGORY)) = Inr ?outs"
    by (simp only: fixture_decodes)
  have ml: "map label ?entries = concat (dict_values IMAGE_CATEGORY)"
    by (simp add: candidate_labels_eq labels_of_Graph labels_of_Formula labels_of_Text)
  have h3: "?outs = sort_key (\<lambda>x. - num_of (score x)) ?entries \<and>
      map label ?entries = concat (dict_values IMAGE_CATEGORY) \<and>
      (\<forall>x\<in>set ?entries. score x \<noteq> NaN) \<and>
      ?entries = [?c1, ?c2] @ ?c3 # [?c4, ?c5, ?c6, ?c7, ?c8, ?c9] \<and>
      (\<forall>x\<in>set [?c1, ?c2]. py_gt (score ?c3) (score x)) \<and>
      (\<forall>x\<in>set [?c4, ?c5, ?c6, ?c7, ?c8, ?c9]. \<not> py_gt (score x) (score ?c3))"
    using ml by simp
  have r3: "snd (classificate_image ?e3 7) = Inr (Some (pystr ''a picture including bar graph''))"
    using classificate_image_picks_first_listed_max[OF a3, THEN conjunct2, rule_format, OF h3,
        THEN conjunct1]
    by simp
  show ?thesis using r1 r2 r3 by blast
qed

section \<open>The candidate labels and the dispatch\<close>

lemma candidate_labels_nine:
  "concat (dict_values IMAGE_CATEGORY) =
     [pystr ''a picture including curve graph'',
      pystr ''a picture including linear graph'',
      pystr ''a picture including bar graph'',
      pystr ''equilibrium expression for a chemical'',
      pystr ''formula including fraction or symbols'',
      pystr ''a formula including Korean'',
      pystr ''a sentence including Hangul'',
      pystr ''a photo including Hangul'',
      pystr ''a sentence including English'']"
  by (simp add: candidate_labels_eq labels_of_Graph labels_of_Formula labels_of_Text)

lemma fst_extract_text: "fst (extract_text env b) = [Call_ocr b]"
  by (simp add: extract_text_def run_defs py_index0_def py_iter_def Let_def
      split: sum.splits list.splits option.splits prod.splits)

lemma fst_extract_formula: "fst (extract_formula_from_image env img) = [Call_formula img]"
  by (simp add: extract_formula_from_image_def run_defs py_index0_def Let_def
      split: sum.splits list.splits prod.splits)

lemma fst_get_caption: "fst (get_caption_with_gemini env b) = [Call_gemini b]"
  by (simp add: get_caption_with_gemini_def run_defs)

lemma dispatch_Text:
  "l \<in> set (labels_of (pystr ''Text'')) \<Longrightarrow> dispatch env b img (Some l) = extract_text env b"
  by (simp add: dispatch_def py_in_def)

lemma dispatch_Formula:
  "l \<in> set (labels_of (pystr ''Formula'')) \<Longrightarrow>
   dispatch env b img (Some l) = extract_formula_from_image env img"
  by (simp add: dispatch_def py_in_def formula_label_not_text)

lemma dispatch_Graph:
  "l \<in> set (labels_of (pystr ''Graph'')) \<Longrightarrow>
   dispatch env b img (Some l) = get_caption_with_gemini env b"
  by (simp add: dispatch_def py_in_def graph_label_not_text graph_label_not_formula)

lemma classifier_calls_of_dispatch:
  "filter is_classifier_call (fst (dispatch env b img image_type)) = []"
  by (simp add: dispatch_def fst_extract_text fst_extract_formula fst_get_caption)

lemma classifier_calls_of_classificate_image:
  "filter is_classifier_call (fst (classificate_image env img)) =
     [Call_classifier img (concat (dict_values IMAGE_CATEGORY))]"
  by (simp add: classificate_image_def run_defs Let_def py_max_def
      split: sum.splits py_exc.splits list.splits)

lemma fst_convert_decoded:
  assumes "b64decode env s = Inr b" and "image_open_rgb env b = Inr img"
  shows "fst (convert_img_to_txt env s) =
     decoded_events s b @ fst (classificate_image env img) @
     (case snd (classificate_image env img) of
        Inl _ \<Rightarrow> []
      | Inr image_type \<Rightarrow> fst (dispatch env b img image_type))"
  by (simp add: convert_decoded[OF assms] split: prod.splits sum.splits py_exc.splits)

text \<open>
  C9. After a successful decode the classifier is called exactly once, with the nine
  labels of \<open>IMAGE_CATEGORY\<close> in the order Graph, Formula, Text; and the label it
  returns decides the handler by membership: a Text label leads to the OCR call, a
  Formula label to the formula model, a Graph label to the captioner, and to no other
  handler.
\<close>

theorem classifier_called_with_all_labels:
  assumes "b64decode env s = Inr b" and "image_open_rgb env b = Inr img"
  shows "filter is_classifier_call (fst (convert_img_to_txt env s)) =
           [Call_classifier img
              [pystr ''a picture including curve graph'',
               pystr ''a picture including linear graph'',
               pystr ''a picture including bar graph'',
               pystr ''equilibrium expression for a chemical'',
               pystr ''formula including fraction or symbols'',
               pystr ''a formula including Korean'',
               pystr ''a sentence including Hangul'',
               pystr ''a photo including Hangul'',
               pystr ''a sentence including English'']] \<and>
         (\<forall>outputs best.
            image_classifier env img (concat (dict_values IMAGE_CATEGORY)) = Inr outputs \<and>
            py_max score outputs = Inr best \<longrightarrow>
            (label best \<in> set (labels_of (pystr ''Text'')) \<longrightarrow>
               filter is_handler_call (fst (convert_img_to_txt env s)) = [Call_ocr b]) \<and>
            (label best \<in> set (labels_of (pystr ''Formula'')) \<longrightarrow>
               filter is_handler_call (fst (convert_img_to_txt env s)) = [Call_formula img]) \<and>
            (label best \<in> set (labels_of (pystr ''Graph'')) \<longrightarrow>
               filter is_handler_call (fst (convert_img_to_txt env s)) = [Call_gemini b]))"
proof (intro conjI allI impI)
  show "filter is_classifier_call (fst (convert_img_to_txt env s)) =
           [Call_classifier img
              [pystr ''a picture including curve graph'',
               pystr ''a picture including linear graph'',
               pystr ''a picture including bar graph'',
               pystr ''equilibrium expression for a chemical'',
               pystr ''formula including fraction or symbols'',
               pystr ''a formula including Korean'',
               pystr ''a sentence including Hangul'',
               pystr ''a photo including Hangul'',
               pystr ''a sentence including English'']]"
    unfolding candidate_labels_nine[symmetric]
    by (simp add: fst_convert_decoded[OF assms] classifier_calls_of_classificate_image
        classifier_calls_of_dispatch decoded_events_def split: sum.splits)
next
  fix outputs best
  assume h: "image_classifier env img (concat (dict_values IMAGE_CATEGORY)) = Inr outputs \<and>
            py_max score outputs = Inr best"
  then have c: "classificate_image env img =
     ([Call_classifier img (concat (dict_values IMAGE_CATEGORY)),
       Log INFO (pystr ''classificate image: '' @ label best)], Inr (Some (label best)))"
    by (simp add: classificate_image_best)
  {
    assume "label best \<in> set (labels_of (pystr ''Text''))"
    then show "filter is_handler_call (fst (convert_img_to_txt env s)) = [Call_ocr b]"
      by (simp add: fst_convert_decoded[OF assms] c dispatch_Text fst_extract_text
          decoded_events_def)
  next
    assume "label best \<in> set (labels_of (pystr ''Formula''))"
    then show "filter is_handler_call (fst (convert_img_to_txt env s)) = [Call_formula img]"
      by (simp add: fst_convert_decoded[OF assms] c dispatch_Formula fst_extract_formula
          decoded_events_def)
  next
    assume "label best \<in> set (labels_of (pystr ''Graph''))"
    then show "filter is_handler_call (fst (convert_img_to_txt env s)) = [Call_gemini b]"
      by (simp add: fst_convert_decoded[OF assms] c dispatch_Graph fst_get_caption
          decoded_events_def)
  }
qed

theorem classifier_called_with_all_labels_witness:
  "filter is_classifier_call (fst (convert_img_to_txt
     (fixture (Inr [\<lparr>label = pystr ''a picture including curve graph'', score = Number 0.6\<rparr>])
        (Inr []) (Inr []) (Inr (pystr ''two curves''))) png_b64)) =
     [Call_classifier 7
              [pystr ''a picture including curve graph'',
               pystr ''a picture including linear graph'',
               pystr ''a picture including bar graph'',
               pystr ''equilibrium expression for a chemical'',
               pystr ''formula including fraction or symbols'',
               pystr ''a formula including Korean'',
               pystr ''a sentence including Hangul'',
               pystr ''a photo including Hangul'',
               pystr ''a sentence including English'']] \<and>
   filter is_handler_call (fst (convert_img_to_txt
     (fixture (Inr [\<lparr>label = pystr ''a picture including curve graph'', score = Number 0.6\<rparr>])
        (Inr []) (Inr []) (Inr (pystr ''two curves''))) png_b64)) = [Call_gemini png_bytes]"
proof -
  let ?best = "\<lparr>label = pystr ''a picture including curve graph'', score = Number 0.6\<rparr>"
  let ?env = "fixture (Inr [?best]) (Inr []) (Inr []) (Inr (pystr ''two curves'')) :: nat externals"
  have a: "b64decode ?env png_b64 = Inr png_bytes" "image_open_rgb ?env png_bytes = Inr 7"
    by (simp_all only: fixture_decodes)
  have c: "image_classifier ?env 7 (concat (dict_values IMAGE_CATEGORY)) = Inr [?best]"
    by (simp only: fixture_decodes)
  have m: "py_max score [?best] = Inr ?best"
    by (simp add: py_max_def)
  have l: "label ?best \<in> set (labels_of (pystr ''Graph''))"
    by (simp add: labels_of_Graph)
  show ?thesis
    using classifier_called_with_all_labels[OF a] c m l by blast
qed

section \<open>Disjointness of the label lists\<close>

lemma image_category_lists:
  "IMAGE_CATEGORY =
     [(pystr ''Graph'', labels_of (pystr ''Graph'')),
      (pystr ''Formula'', labels_of (pystr ''Formula'')),
      (pystr ''Text'', labels_of (pystr ''Text''))]"
  unfolding labels_of_Graph labels_of_Formula labels_of_Text by (simp add: IMAGE_CATEGORY_def)

lemma owners_cases:
  "l \<in> set (labels_of (pystr ''Graph'')) \<Longrightarrow> owners l = [pystr ''Graph'']"
  "l \<in> set (labels_of (pystr ''Formula'')) \<Longrightarrow> owners l = [pystr ''Formula'']"
  "l \<in> set (labels_of (pystr ''Text'')) \<Longrightarrow> owners l = [pystr ''Text'']"
  using distinct_candidates by (auto simp add: owners_def image_category_lists)

lemma category_handler_call_simps:
  "category_handler_call (pystr ''Graph'') b img = Call_gemini b"
  "category_handler_call (pystr ''Formula'') b img = Call_formula img"
  "category_handler_call (pystr ''Text'') b img = Call_ocr b"
  by (simp_all add: category_handler_call_def pystr_def)

lemma handler_calls_of_label:
  assumes "b64decode env s = Inr b" and "image_open_rgb env b = Inr img"
    and "image_classifier env img (concat (dict_values IMAGE_CATEGORY)) = Inr outputs"
    and "py_max score outputs = Inr best"
  shows "label best \<in> set (labels_of (pystr ''Text'')) \<Longrightarrow>
           filter is_handler_call (fst (convert_img_to_txt env s)) = [Call_ocr b]"
    and "label best \<in> set (labels_of (pystr ''Formula'')) \<Longrightarrow>
           filter is_handler_call (fst (convert_img_to_txt env s)) = [Call_formula img]"
    and "label best \<in> set (labels_of (pystr ''Graph'')) \<Longrightarrow>
           filter is_handler_call (fst (convert_img_to_txt env s)) = [Call_gemini b]"
  by (simp_all add: fst_convert_decoded[OF assms(1,2)] classificate_image_best[OF assms(3,4)]
      dispatch_Text dispatch_Formula dispatch_Graph fst_extract_text fst_extract_formula
      fst_get_caption decoded_events_def)

text \<open>
  C10. No label occurs twice in the table: the nine candidate labels are distinct, the
  three label lists are pairwise disjoint and each candidate label has exactly one
  owning category. So the membership tests of \<open>convert_img_to_txt\<close> are unambiguous:
  whenever the label selected is one of the candidates, the function calls exactly one
  handler, the one of the label's owning category (the OCR engine for Text, the formula
  model for Formula, the captioner for Graph).
\<close>

theorem category_labels_disjoint:
  "distinct (concat (dict_values IMAGE_CATEGORY)) \<and>
   length (concat (dict_values IMAGE_CATEGORY)) = 9 \<and>
   set (labels_of (pystr ''Graph'')) \<inter> set (labels_of (pystr ''Formula'')) = {} \<and>
   set (labels_of (pystr ''Graph'')) \<inter> set (labels_of (pystr ''Text'')) = {} \<and>
   set (labels_of (pystr ''Formula'')) \<inter> set (labels_of (pystr ''Text'')) = {} \<and>
   list_all (\<lambda>l. length (owners l) = 1) (concat (dict_values IMAGE_CATEGORY)) \<and>
   (\<forall>env s b img outputs best.
      b64decode env s = Inr b \<and> image_open_rgb env b = Inr img \<and>
      image_classifier env img (concat (dict_values IMAGE_CATEGORY)) = Inr outputs \<and>
      py_max score outputs = Inr best \<and>
      label best \<in> set (concat (dict_values IMAGE_CATEGORY)) \<longrightarrow>
      (\<exists>k. owners (label best) = [k] \<and>
           filter is_handler_call (fst (convert_img_to_txt env s)) =
             [category_handler_call k b (img::'img)]))"
proof -
  have d: "distinct (concat (dict_values IMAGE_CATEGORY))"
    unfolding candidate_labels_eq by (rule distinct_candidates)
  have n: "length (concat (dict_values IMAGE_CATEGORY)) = 9"
    by (simp add: candidate_labels_nine)
  have o: "list_all (\<lambda>l. length (owners l) = 1) (concat (dict_values IMAGE_CATEGORY))"
    unfolding candidate_labels_eq by (auto simp add: list_all_iff owners_cases)
  have i: "set (labels_of (pystr ''Graph'')) \<inter> set (labels_of (pystr ''Formula'')) = {}"
    "set (labels_of (pystr ''Graph'')) \<inter> set (labels_of (pystr ''Text'')) = {}"
    "set (labels_of (pystr ''Formula'')) \<inter> set (labels_of (pystr ''Text'')) = {}"
    using distinct_candidates by auto
  have h: "\<exists>k. owners (label best) = [k] \<and>
              filter is_handler_call (fst (convert_img_to_txt env s)) =
                [category_handler_call k b img]"
    if a: "b64decode env s = Inr b" "image_open_rgb env b = Inr img"
      "image_classifier env img (concat (dict_values IMAGE_CATEGORY)) = Inr outputs"
      "py_max score outputs = Inr best"
      and l: "label best \<in> set (concat (dict_values IMAGE_CATEGORY))"
    for env :: "'img externals" and s b img outputs best
  proof -
    consider "label best \<in> set (labels_of (pystr ''Graph''))"
      | "label best \<in> set (labels_of (pystr ''Formula''))"
      | "label best \<in> set (labels_of (pystr ''Text''))"
      using l unfolding candidate_labels_eq by auto
    then show ?thesis
    proof cases
      case 1
      then show ?thesis
        using handler_calls_of_label(3)[OF a]
        by (simp add: owners_cases category_handler_call_simps)
    next
      case 2
      then show ?thesis
        using handler_calls_of_label(2)[OF a]
        by (simp add: owners_cases category_handler_call_simps)
    next
      case 3
      then show ?thesis
        using handler_calls_of_label(1)[OF a]
        by (simp add: owners_cases category_handler_call_simps)
    qed
  qed
  show ?thesis
    using d n o i h by blast
qed

theorem category_labels_disjoint_witness:
  "owners (pystr ''formula including fraction or symbols'') = [pystr ''Formula''] \<and>
   filter is_handler_call (fst (convert_img_to_txt
     (fixture (Inr [\<lparr>label = pystr ''formula including fraction or symbols'', score = Number 0.7\<rparr>])
        (Inr []) (Inr [pystr ''x'']) (Inr [])) png_b64)) = [Call_formula 7]"
proof -
  let ?best = "\<lparr>label = pystr ''formula including fraction or symbols'', score = Number 0.7\<rparr>"
  let ?env = "fixture (Inr [?best]) (Inr []) (Inr [pystr ''x'']) (Inr []) :: nat externals"
  have a: "b64decode ?env png_b64 = Inr png_bytes" "image_open_rgb ?env png_bytes = Inr 7"
    "image_classifier ?env 7 (concat (dict_values IMAGE_CATEGORY)) = Inr [?best]"
    by (simp_all only: fixture_decodes)
  have m: "py_max score [?best] = Inr ?best"
    by (simp add: py_max_def)
  have lf: "label ?best \<in> set (labels_of (pystr ''Formula''))"
    by (simp add: labels_of_Formula)
  then have l: "label ?best \<in> set (concat (dict_values IMAGE_CATEGORY))"
    unfolding candidate_labels_eq by simp
  have ow: "owners (label ?best) = [pystr ''Formula'']"
    using lf by (rule owners_cases(2))
  have "\<forall>env s b img outputs best.
      b64decode env s = Inr b \<and> image_open_rgb env b = Inr img \<and>
      image_classifier env img (concat (dict_values IMAGE_CATEGORY)) = Inr outputs \<and>
      py_max score outputs = Inr best \<and>
      label best \<in> set (concat (dict_values IMAGE_CATEGORY)) \<longrightarrow>
      (\<exists>k. owners (label best) = [k] \<and>
           filter is_handler_call (fst (convert_img_to_txt env s)) =
             [category_handler_call k b (img::nat)])"
    using category_labels_disjoint[where 'img = nat] by blast
  with a m l obtain k where k: "owners (label ?best) = [k]"
    "filter is_handler_call (fst (convert_img_to_txt ?env png_b64)) =
       [category_handler_call k png_bytes 7]"
    by blast
  from k(1) ow have "k = pystr ''Formula''" by simp
  with k(2) ow show ?thesis
    by (simp add: category_handler_call_simps)
qed

section \<open>The two substitutions\<close>

lemma rx_match_lits:
  "rx_match (map (\<lambda>c. One (Lit c)) w @ p) s =
     (case strip_prefix w s of None \<Rightarrow> None | Some r \<Rightarrow> rx_match p r)"
proof (induction w arbitrary: s)
  case Nil
  then show ?case by (simp add: strip_prefix_def)
next
  case (Cons a w)
  then show ?case by (cases s) (auto simp add: strip_prefix_def)
qed

lemma lits_pystr: "lits w = map (\<lambda>c. One (Lit c)) (pystr w)"
  by (simp add: lits_def pystr_def)

lemma rx_match_star_space:
  assumes "\<not> isspace a"
  shows "rx_match (Star Space # One (Lit a) # p) s =
         rx_match (One (Lit a) # p) (dropWhile isspace s)"
proof (induction s)
  case Nil
  then show ?case by simp
next
  case (Cons c cs)
  show ?case
  proof (cases "isspace c")
    case True
    with assms have "c \<noteq> a" by auto
    with True Cons show ?thesis by (simp split: option.splits)
  next
    case False
    then show ?thesis by simp
  qed
qed

lemma rx_match_prompt_pattern: "rx_match prompt_pattern s = echo_rest s"
proof -
  have E: "lits ''Extract mathematical expressions in LaTeX format'' =
      One (Lit 69) # lits ''xtract mathematical expressions in LaTeX format''"
    by (simp add: lits_def)
  have A: "lits ''Assistant: 0>0>500>500>'' = One (Lit 65) # lits ''ssistant: 0>0>500>500>''"
    by (simp add: lits_def)
  have nE: "\<not> isspace 69" and nA: "\<not> isspace 65"
    by (simp_all add: isspace_def)
  have s1: "rx_match ([Star Space] @ lits ''Extract mathematical expressions in LaTeX format'' @ q) t
      = rx_match (lits ''Extract mathematical expressions in LaTeX format'' @ q)
          (dropWhile isspace t)" for q t
    unfolding E using rx_match_star_space[OF nE] by simp
  have s2: "rx_match ([Star Space] @ lits ''Assistant: 0>0>500>500>'') t
      = rx_match (lits ''Assistant: 0>0>500>500>'' @ []) (dropWhile isspace t)" for t
    unfolding A using rx_match_star_space[OF nA] by simp
  have "rx_match prompt_pattern s =
     (case strip_prefix (pystr ''User:'') s of
        None \<Rightarrow> None
      | Some s1 \<Rightarrow>
          (case strip_prefix (pystr ''Extract mathematical expressions in LaTeX format'')
                  (dropWhile isspace s1) of
             None \<Rightarrow> None
           | Some s2 \<Rightarrow>
               (case strip_prefix (pystr ''Assistant: 0>0>500>500>'') (dropWhile isspace s2) of
                  None \<Rightarrow> None
                | Some r \<Rightarrow> Some r)))"
    unfolding prompt_pattern_def
    by (simp only: lits_pystr rx_match_lits s1[unfolded lits_pystr] s2[unfolded lits_pystr]
        rx_match.simps(1))
  then show ?thesis
    by (simp add: echo_rest_def split: option.splits)
qed

lemma re_sub_prompt_pattern: "re_sub prompt_pattern [] s = remove_echoes s"
proof (induction s rule: remove_echoes.induct)
  case (1 s)
  show ?case
  proof (cases "echo_rest s")
    case None
    have L: "re_sub prompt_pattern [] s =
        (case s of [] \<Rightarrow> [] | c # cs \<Rightarrow> c # re_sub prompt_pattern [] cs)"
      by (subst re_sub.simps) (simp del: re_sub.simps add: rx_match_prompt_pattern None)
    have R: "remove_echoes s = (case s of [] \<Rightarrow> [] | c # cs \<Rightarrow> c # remove_echoes cs)"
      by (subst remove_echoes.simps) (simp del: remove_echoes.simps add: None)
    show ?thesis
    proof (cases s)
      case Nil
      then show ?thesis unfolding L R by simp
    next
      case (Cons c cs)
      from "1.IH"(1)[OF None Cons] show ?thesis
        unfolding L R by (simp add: Cons del: re_sub.simps remove_echoes.simps)
    qed
  next
    case (Some rest)
    have L: "re_sub prompt_pattern [] s = re_sub prompt_pattern [] rest"
      using echo_rest_shorter[OF Some]
      by (subst re_sub.simps) (simp del: re_sub.simps add: rx_match_prompt_pattern Some)
    have R: "remove_echoes s = remove_echoes rest"
      by (subst remove_echoes.simps) (simp del: remove_echoes.simps add: Some)
    from "1.IH"(2)[OF Some] show ?thesis
      unfolding L R .
  qed
qed

lemma rx_match_trailing_pattern:
  "rx_match trailing_pattern s =
     (if s = artifact then Some [] else if s = artifact @ [10] then Some [10] else None)"
proof -
  have t: "trailing_pattern = map (\<lambda>c. One (Lit c)) artifact @ [Dollar]"
    by (simp add: trailing_pattern_def artifact_def)
  show ?thesis
    unfolding t rx_match_lits
    by (auto simp add: strip_prefix_def prefix_def artifact_def split: option.splits)
qed

lemma strip_artifact_Cons:
  assumes "c # cs \<noteq> artifact" and "c # cs \<noteq> artifact @ [10]"
  shows "strip_artifact (c # cs) = c # strip_artifact cs"
proof -
  have a: "suffix artifact (c # cs) \<longleftrightarrow> suffix artifact cs"
    using assms(1) by (auto simp add: suffix_Cons)
  have b: "suffix (artifact @ [10]) (c # cs) \<longleftrightarrow> suffix (artifact @ [10]) cs"
    using assms(2) by (auto simp add: suffix_Cons)
  have la: "suffix artifact cs \<Longrightarrow> 4 \<le> length cs"
    by (drule suffix_length_le) (simp add: artifact_def)
  have lb: "suffix (artifact @ [10]) cs \<Longrightarrow> 5 \<le> length cs"
    by (drule suffix_length_le) (simp add: artifact_def)
  show ?thesis
    unfolding strip_artifact_def a b
    using la lb by (auto simp add: take_Cons' Suc_diff_le)
qed

lemma re_sub_trailing_pattern: "re_sub trailing_pattern [] s = strip_artifact s"
proof (induction s)
  case Nil
  show ?case
    by (subst re_sub.simps)
      (simp del: re_sub.simps add: rx_match_trailing_pattern strip_artifact_def artifact_def)
next
  case (Cons c cs)
  have e: "re_sub trailing_pattern [] [] = []"
    by (subst re_sub.simps) (simp del: re_sub.simps add: rx_match_trailing_pattern artifact_def)
  have n: "re_sub trailing_pattern [] [10] = [10]"
    by (subst re_sub.simps) (simp del: re_sub.simps add: rx_match_trailing_pattern artifact_def e)
  consider "c # cs = artifact" | "c # cs = artifact @ [10]"
    | "c # cs \<noteq> artifact" "c # cs \<noteq> artifact @ [10]" by blast
  then show ?case
  proof cases
    case 1
    then show ?thesis
      by (subst re_sub.simps)
        (simp del: re_sub.simps add: rx_match_trailing_pattern strip_artifact_def artifact_def e)
  next
    case 2
    then show ?thesis
      by (subst re_sub.simps)
        (simp del: re_sub.simps
          add: rx_match_trailing_pattern strip_artifact_def artifact_def n suffix_Cons)
  next
    case 3
    then show ?thesis
      using Cons.IH
      by (subst re_sub.simps)
        (simp del: re_sub.simps add: rx_match_trailing_pattern strip_artifact_Cons)
  qed
qed

text \<open>
  C8, as stated, fails in the first two steps. The second substitution also removes a
  \<open>\, .\<close> that stands just before a final newline, and the first one also removes an echo
  whose blanks differ from those of the exact prompt text (here none after \<open>User:\<close> and a
  newline before \<open>Assistant:\<close>); the steps as the specification words them leave both
  inputs as they are.
\<close>

theorem three_steps_counterexample:
  "convert_text_to_latex (pystr ''x'' @ artifact @ [10]) = pystr ''$x'' @ [10] @ pystr ''$'' \<and>
   spec_convert_text_to_latex (pystr ''x'' @ artifact @ [10]) =
     pystr ''$x'' @ artifact @ [10] @ pystr ''$'' \<and>
   convert_text_to_latex
     (pystr ''User:Extract mathematical expressions in LaTeX format'' @ [10] @
      pystr ''Assistant: 0>0>500>500>x'') = pystr ''$x$'' \<and>
   spec_convert_text_to_latex
     (pystr ''User:Extract mathematical expressions in LaTeX format'' @ [10] @
      pystr ''Assistant: 0>0>500>500>x'') =
     pystr ''$User:Extract mathematical expressions in LaTeX format'' @ [10] @
     pystr ''Assistant: 0>0>500>500>x$''"
proof -
  have a: "convert_text_to_latex (pystr ''x'' @ artifact @ [10]) = pystr ''$x'' @ [10] @ pystr ''$''"
    by (simp add: convert_text_to_latex_def pystr_def prompt_pattern_def trailing_pattern_def
        lits_def artifact_def)
  have b: "spec_convert_text_to_latex (pystr ''x'' @ artifact @ [10]) =
     pystr ''$x'' @ artifact @ [10] @ pystr ''$''"
    by (simp add: spec_convert_text_to_latex_def spec_strip_trailing_def echo_text_def pystr_def
        artifact_def suffix_Cons)
  have c: "convert_text_to_latex
     (pystr ''User:Extract mathematical expressions in LaTeX format'' @ [10] @
      pystr ''Assistant: 0>0>500>500>x'') = pystr ''$x$''"
    by (simp add: convert_text_to_latex_def pystr_def prompt_pattern_def trailing_pattern_def
        lits_def isspace_def)
  have d: "spec_convert_text_to_latex
     (pystr ''User:Extract mathematical expressions in LaTeX format'' @ [10] @
      pystr ''Assistant: 0>0>500>500>x'') =
     pystr ''$User:Extract mathematical expressions in LaTeX format'' @ [10] @
     pystr ''Assistant: 0>0>500>500>x$''"
    by (simp add: spec_convert_text_to_latex_def spec_strip_trailing_def echo_text_def pystr_def
        artifact_def suffix_Cons)
  show ?thesis using a b c d by blast
qed

text \<open>
  C8, amended. For every input text, \<open>_convert_text_to_latex\<close> performs three steps in
  order. It removes every echo of the prompt, scanning from the left and going on after
  each echo removed, where an echo is \<open>User:\<close>, any run of whitespace (possibly empty),
  \<open>Extract mathematical expressions in LaTeX format\<close>, any run of whitespace,
  \<open>Assistant: 0>0>500>500>\<close>. It then removes a \<open>\, .\<close> that stands at the end of the
  string or just before a newline that ends the string. It wraps the remainder in dollar
  signs unconditionally, so an empty remainder yields \<open>$$\<close>.
\<close>

theorem convert_text_to_latex_three_steps:
  "convert_text_to_latex text = pystr ''$'' @ strip_artifact (remove_echoes text) @ pystr ''$'' \<and>
   (strip_artifact (remove_echoes text) = [] \<longrightarrow> convert_text_to_latex text = pystr ''$$'')"
proof -
  have "convert_text_to_latex text = pystr ''$'' @ strip_artifact (remove_echoes text) @ pystr ''$''"
    by (simp only: convert_text_to_latex_def Let_def re_sub_prompt_pattern
        re_sub_trailing_pattern)
  then show ?thesis by (simp add: pystr_def)
qed

theorem convert_text_to_latex_three_steps_witness:
  "convert_text_to_latex
     (pystr ''User:  Extract mathematical expressions in LaTeX format Assistant: 0>0>500>500>'' @
      artifact) = pystr ''$$''"
proof -
  have "strip_artifact (remove_echoes
     (pystr ''User:  Extract mathematical expressions in LaTeX format Assistant: 0>0>500>500>'' @
      artifact)) = []"
    by (simp add: strip_artifact_def echo_rest_def strip_prefix_def isspace_def artifact_def
        pystr_def)
  then show ?thesis
    using convert_text_to_latex_three_steps[of
      "pystr ''User:  Extract mathematical expressions in LaTeX format Assistant: 0>0>500>500>'' @
       artifact"]
    by blast
qed

section \<open>Formula post-processing\<close>

text \<open>
  C7. Applied to the prompt echo
  \<open>User: Extract mathematical expressions in LaTeX format Assistant: 0>0>500>500>\<close>
  followed by \<open>x=1\, .\<close> (the backslash is the code point 92), the formula
  post-processing yields exactly \<open>$x=1$\<close>.
\<close>

theorem convert_text_to_latex_example:
  "convert_text_to_latex
     (pystr ''User: Extract mathematical expressions in LaTeX format Assistant: 0>0>500>500>x=1''
      @ [92] @ pystr '', .'') = pystr ''$x=1$''"
  by (simp add: convert_text_to_latex_def pystr_def prompt_pattern_def trailing_pattern_def
      lits_def isspace_def)

end
